theory Spec2Isabelle
  imports Main "HOL-Library.Sublist"
begin

section \<open>acceptance/framework/environment/environment.go\<close>

subsection \<open>Failures, pointers and strings\<close>

text \<open>
  A call of the test framework ends in one of three ways: it returns, it fails the test
  (\<open>require.*\<close> calls \<open>t.FailNow\<close>, which stops the test's goroutine; the message given
  to \<open>require\<close> is kept), or it panics on a nil pointer.
\<close>

datatype failure = FailNow string | NilPointerPanic

text \<open>A Go pointer: \<open>None\<close> is \<open>nil\<close>, \<open>Some a\<close> the address \<open>a\<close> of an object in the heap.\<close>

type_synonym ptr = "nat option"

text \<open>\<open>strings.Contains(s, substr)\<close>: \<open>substr\<close> starts at some position of \<open>s\<close>.\<close>

fun Contains :: "string \<Rightarrow> string \<Rightarrow> bool" where
  "Contains [] substr = (substr = [])"
| "Contains (c # s) substr = (prefix substr (c # s) \<or> Contains s substr)"

subsection \<open>Data\<close>

text \<open>\<open>k8s.KubectlOptions\<close> of terratest: the three fields the code sets and reads.\<close>

record KubectlOptions =
  ContextName :: string
  ConfigPath :: string
  Namespace :: string

text \<open>
  \<open>clientcmdapi.Config\<close> as \<open>RawConfig()\<close> returns it: \<open>CurrentContext string\<close> and
  \<open>Contexts map[string]*Context\<close>; a name absent from \<open>Contexts\<close> reads as a nil pointer.
  The field \<open>Namespace\<close> of \<open>Context\<close> is called \<open>ContextNamespace\<close> here.
\<close>

record api_Context =
  ContextNamespace :: string

record api_Config =
  CurrentContext :: string
  Contexts :: "string \<rightharpoonup> api_Context"

text \<open>\<open>rest.Config\<close> and the client set built from it are opaque to this package.\<close>

datatype rest_Config = rest_Config string

datatype Clientset = Clientset rest_Config

record kubernetesContext =
  pathToKubeConfig :: string
  kubeContextName :: string
  namespace :: string
  client :: ptr
  options :: ptr

text \<open>The fields of \<open>config.TestConfig\<close> that this package and the tests below read.\<close>

record TestConfig =
  KubeNamespace :: string
  Kubeconfig :: string
  KubeContext :: string
  EnableMultiCluster :: bool
  SecondaryKubeNamespace :: string
  SecondaryKubeconfig :: string
  SecondaryKubeContext :: string
  NoCleanupOnFailure :: bool
  DebugDirectory :: string

record KubernetesEnvironment =
  contexts :: "string \<rightharpoonup> ptr"

text \<open>
  The heap: the objects behind \<open>*kubernetesContext\<close>, \<open>*k8s.KubectlOptions\<close> and
  \<open>kubernetes.Interface\<close> values. An address is an index; allocation appends.
\<close>

record heap =
  contexts_mem :: "kubernetesContext list"
  options_mem :: "KubectlOptions list"
  clients_mem :: "Clientset list"

definition load_context :: "heap \<Rightarrow> ptr \<Rightarrow> kubernetesContext option" where
  "load_context h p =
     (case p of None \<Rightarrow> None
      | Some a \<Rightarrow> if a < length (contexts_mem h) then Some (contexts_mem h ! a) else None)"

definition load_options :: "heap \<Rightarrow> ptr \<Rightarrow> KubectlOptions option" where
  "load_options h p =
     (case p of None \<Rightarrow> None
      | Some a \<Rightarrow> if a < length (options_mem h) then Some (options_mem h ! a) else None)"

definition load_client :: "heap \<Rightarrow> ptr \<Rightarrow> Clientset option" where
  "load_client h p =
     (case p of None \<Rightarrow> None
      | Some a \<Rightarrow> if a < length (clients_mem h) then Some (clients_mem h ! a) else None)"

text \<open>
  The libraries the package calls (terratest's \<open>k8s\<close>, client-go), as they answer at one
  moment: each returns an error (\<open>Inl\<close>, the error's text) or a value. A kubeconfig file
  that changes on disk is a different \<open>kube\<close>.
\<close>

record kube =
  GetConfigPath :: "KubectlOptions \<Rightarrow> string + string"
  RawConfig :: "string \<Rightarrow> string + api_Config"
  LoadApiClientConfigE :: "string \<Rightarrow> string \<Rightarrow> string + rest_Config"
  NewForConfig :: "rest_Config \<Rightarrow> string + Clientset"

subsection \<open>Constants and constructors\<close>

definition DefaultContextName :: string where
  "DefaultContextName = ''default''"

definition SecondaryContextName :: string where
  "SecondaryContextName = ''secondary''"

text \<open>\<open>metav1.NamespaceDefault\<close>.\<close>

definition NamespaceDefault :: string where
  "NamespaceDefault = ''default''"

definition NewContext :: "string \<Rightarrow> string \<Rightarrow> string \<Rightarrow> heap \<Rightarrow> ptr \<times> heap" where
  "NewContext namespace' pathToKubeConfig' kubeContextName' h =
     (Some (length (contexts_mem h)),
      h\<lparr>contexts_mem := contexts_mem h @
           [\<lparr>pathToKubeConfig = pathToKubeConfig', kubeContextName = kubeContextName',
             namespace = namespace', client = None, options = None\<rparr>]\<rparr>)"

definition NewKubernetesEnvironmentFromConfig ::
    "TestConfig option \<Rightarrow> heap \<Rightarrow> failure + (KubernetesEnvironment \<times> heap)" where
  "NewKubernetesEnvironmentFromConfig config h =
     (case config of
        None \<Rightarrow> Inl NilPointerPanic
      | Some cfg \<Rightarrow>
          (case NewContext (KubeNamespace cfg) (Kubeconfig cfg) (KubeContext cfg) h of
             (defaultContext, h1) \<Rightarrow>
               let kenv = \<lparr>contexts = [DefaultContextName \<mapsto> defaultContext]\<rparr>
               in if EnableMultiCluster cfg
                  then (case NewContext (SecondaryKubeNamespace cfg) (SecondaryKubeconfig cfg)
                               (SecondaryKubeContext cfg) h1 of
                          (secondaryContext, h2) \<Rightarrow>
                            Inr (kenv\<lparr>contexts := (contexts kenv)(SecondaryContextName \<mapsto> secondaryContext)\<rparr>, h2))
                  else Inr (kenv, h1)))"

definition NewKubernetesEnvironmentFromContext :: "ptr \<Rightarrow> KubernetesEnvironment" where
  "NewKubernetesEnvironmentFromContext context = \<lparr>contexts = [DefaultContextName \<mapsto> context]\<rparr>"

subsection \<open>The registry's accessors\<close>

text \<open>
  Both methods have a pointer receiver, so they are given the environment and return it as
  it is after the call, beside the result. \<open>require.Truef(t, ok, msg)\<close> with no further
  arguments reports \<open>msg\<close> as it is.
\<close>

definition Context ::
    "KubernetesEnvironment \<Rightarrow> string \<Rightarrow> (failure + ptr) \<times> KubernetesEnvironment" where
  "Context k name =
     (case contexts k name of
        None \<Rightarrow> (Inl (FailNow (''requested context '' @ name @ '' not found'')), k)
      | Some ctx \<Rightarrow> (Inr ctx, k))"

definition DefaultContext ::
    "KubernetesEnvironment \<Rightarrow> (failure + ptr) \<times> KubernetesEnvironment" where
  "DefaultContext k =
     (case contexts k DefaultContextName of
        None \<Rightarrow> (Inl (FailNow ''default context not found''), k)
      | Some ctx \<Rightarrow> (Inr ctx, k))"

subsection \<open>Options and client of a context\<close>

definition KubernetesContextFromOptions :: "kube \<Rightarrow> heap \<Rightarrow> ptr \<Rightarrow> failure + string" where
  "KubernetesContextFromOptions w h options' =
     (case load_options h options' of
        None \<Rightarrow> Inl NilPointerPanic
      | Some opts \<Rightarrow>
          if ContextName opts \<noteq> [] then Inr (ContextName opts)
          else (case GetConfigPath w opts of
                  Inl err \<Rightarrow> Inl (FailNow err)
                | Inr configPath \<Rightarrow>
                    (case RawConfig w configPath of
                       Inl err \<Rightarrow> Inl (FailNow err)
                     | Inr rawConfig \<Rightarrow> Inr (CurrentContext rawConfig))))"

text \<open>\<open>k.options.Namespace = ns\<close>, for the options object at address \<open>a\<close>.\<close>

definition store_Namespace :: "heap \<Rightarrow> nat \<Rightarrow> string \<Rightarrow> heap" where
  "store_Namespace h a ns =
     h\<lparr>options_mem := (options_mem h)[a := (options_mem h ! a)\<lparr>Namespace := ns\<rparr>]\<rparr>"

text \<open>
  \<open>func (k kubernetesContext) KubectlOptions\<close>: the receiver is a value, so \<open>k\<close> is the
  method's own copy of the context. The assignment \<open>k.options = &k8s.KubectlOptions{...}\<close>
  allocates the options object and stores its address in that copy; the method returns the
  address and the heap, and the copy is gone when it returns.
\<close>

definition KubectlOptions :: "kube \<Rightarrow> kubernetesContext \<Rightarrow> heap \<Rightarrow> failure + (ptr \<times> heap)" where
  "KubectlOptions w k h =
     (if options k \<noteq> None then Inr (options k, h)
      else
        let a = length (options_mem h);
            h1 = h\<lparr>options_mem := options_mem h @
                   [\<lparr>ContextName = kubeContextName k, ConfigPath = pathToKubeConfig k,
                     Namespace = namespace k\<rparr>]\<rparr>
        in if namespace k = [] then
             (case GetConfigPath w (options_mem h1 ! a) of
                Inl err \<Rightarrow> Inl (FailNow err)
              | Inr configPath \<Rightarrow>
                  (case RawConfig w configPath of
                     Inl err \<Rightarrow> Inl (FailNow err)
                   | Inr rawConfig \<Rightarrow>
                       (case KubernetesContextFromOptions w h1 (Some a) of
                          Inl f \<Rightarrow> Inl f
                        | Inr contextName \<Rightarrow>
                            (case Contexts rawConfig contextName of
                               None \<Rightarrow> Inl NilPointerPanic
                             | Some c \<Rightarrow>
                                 if ContextNamespace c \<noteq> []
                                 then Inr (Some a, store_Namespace h1 a (ContextNamespace c))
                                 else Inr (Some a, store_Namespace h1 a NamespaceDefault)))))
           else Inr (Some a, h1))"

text \<open>
  \<open>kubernetes.NewForConfig\<close> returns a new client set; it is placed at a fresh address.
\<close>

definition KubernetesClientFromOptions :: "kube \<Rightarrow> ptr \<Rightarrow> heap \<Rightarrow> failure + (ptr \<times> heap)" where
  "KubernetesClientFromOptions w options' h =
     (case load_options h options' of
        None \<Rightarrow> Inl NilPointerPanic
      | Some opts \<Rightarrow>
          (case GetConfigPath w opts of
             Inl err \<Rightarrow> Inl (FailNow err)
           | Inr configPath \<Rightarrow>
               (case LoadApiClientConfigE w configPath (ContextName opts) of
                  Inl err \<Rightarrow> Inl (FailNow err)
                | Inr config \<Rightarrow>
                    (case NewForConfig w config of
                       Inl err \<Rightarrow> Inl (FailNow err)
                     | Inr c \<Rightarrow>
                         Inr (Some (length (clients_mem h)),
                              h\<lparr>clients_mem := clients_mem h @ [c]\<rparr>)))))"

text \<open>\<open>func (k kubernetesContext) KubernetesClient\<close>: a value receiver again.\<close>

definition KubernetesClient :: "kube \<Rightarrow> kubernetesContext \<Rightarrow> heap \<Rightarrow> failure + (ptr \<times> heap)" where
  "KubernetesClient w k h =
     (if client k \<noteq> None then Inr (client k, h)
      else (case KubectlOptions w k h of
              Inl f \<Rightarrow> Inl f
            | Inr (options', h1) \<Rightarrow> KubernetesClientFromOptions w options' h1))"

text \<open>
  The two methods as a test calls them, on the \<open>TestContext\<close> that \<open>Context\<close> or
  \<open>DefaultContext\<close> returned: an interface value holding a \<open>*kubernetesContext\<close>. The
  call copies the context the pointer refers to and runs the method on the copy.
\<close>

definition TestContext_KubectlOptions :: "kube \<Rightarrow> ptr \<Rightarrow> heap \<Rightarrow> failure + (ptr \<times> heap)" where
  "TestContext_KubectlOptions w ctx h =
     (case load_context h ctx of
        None \<Rightarrow> Inl NilPointerPanic
      | Some k \<Rightarrow> KubectlOptions w k h)"

definition TestContext_KubernetesClient :: "kube \<Rightarrow> ptr \<Rightarrow> heap \<Rightarrow> failure + (ptr \<times> heap)" where
  "TestContext_KubernetesClient w ctx h =
     (case load_context h ctx of
        None \<Rightarrow> Inl NilPointerPanic
      | Some k \<Rightarrow> KubernetesClient w k h)"

section \<open>The connect-inject tests (package connect)\<close>

subsection \<open>Collaborators and the record of a run\<close>

record CatalogService =
  ServiceID :: string

record Pod =
  Name :: string

text \<open>The two cluster generators, \<open>consul.NewHelmCluster\<close> and \<open>consul.NewCLICluster\<close>.\<close>

datatype generator = NewHelmCluster | NewCLICluster

text \<open>
  \<open>ConnectHelper\<close> as the tests fill it in; \<open>T\<close>, \<open>Ctx\<close> and \<open>Cfg\<close> hold the test handle,
  the context \<open>DefaultContext\<close> returned and the suite's configuration.
\<close>

record ConnectHelper =
  ClusterGenerator :: generator
  Secure :: bool
  AutoEncrypt :: bool
  ReleaseName :: string
  AdditionalHelmValues :: "string \<rightharpoonup> string"

text \<open>
  The calls a test makes to its collaborators, with the arguments the test chooses; the
  test handle, and the context and configuration objects that are handed on as they are,
  are not recorded. A run is the list of its calls, oldest first; logging is left out.
\<close>

datatype event =
    Call_DefaultContext
  | Call_Install ConnectHelper
  | Call_TestInstallation ConnectHelper
  | Call_Upgrade ConnectHelper
  | Call_NewHelmCluster "string \<rightharpoonup> string" string
  | Call_Create
  | Call_KubectlOptions
  | Call_KubernetesClient
  | Call_DeployKustomize bool string string
  | Call_SetupConsulClient bool
  | Call_Catalog_Service string
  | Call_Pods_List string string
  | Call_Pods_Delete string string int

text \<open>
  What the collaborators answer. The moment of a call is the number of calls made before
  it, so the call recorded at position \<open>i\<close> of the run was answered by moment \<open>i\<close>:
  \<^item> \<open>fatal\<close>: a callee that was given the test handle failed the test itself, with
    this message;
  \<^item> \<open>returned_err\<close>: the error the call returned (\<open>None\<close> is \<open>nil\<close>);
  \<^item> \<open>returned_instances\<close>, \<open>returned_pods\<close>, \<open>returned_options\<close>: the value it returned;
  \<^item> \<open>RandomName\<close>: what \<open>helpers.RandomName()\<close> gave.
\<close>

record collaborators =
  fatal :: "nat \<Rightarrow> string option"
  returned_err :: "nat \<Rightarrow> string option"
  returned_instances :: "nat \<Rightarrow> CatalogService list"
  returned_pods :: "nat \<Rightarrow> Pod list"
  returned_options :: "nat \<Rightarrow> KubectlOptions"
  RandomName :: string

text \<open>A step of a test: it extends the run and returns a value or fails the test.\<close>

type_synonym 'a step = "event list \<Rightarrow> (failure + 'a) \<times> event list"

definition bind :: "'a step \<Rightarrow> ('a \<Rightarrow> 'b step) \<Rightarrow> 'b step" where
  "bind m f tr = (case m tr of (Inl e, tr') \<Rightarrow> (Inl e, tr') | (Inr x, tr') \<Rightarrow> f x tr')"

text \<open>A call that is given \<open>t\<close> and returns nothing the test looks at.\<close>

definition call :: "collaborators \<Rightarrow> event \<Rightarrow> unit step" where
  "call w ev tr =
     (case fatal w (length tr) of
        Some msg \<Rightarrow> (Inl (FailNow msg), tr @ [ev])
      | None \<Rightarrow> (Inr (), tr @ [ev]))"

text \<open>A call of a \<open>ConnectHelper\<close> method: it holds \<open>t\<close> and returns an error.\<close>

definition call_err :: "collaborators \<Rightarrow> event \<Rightarrow> (string option) step" where
  "call_err w ev tr =
     (case fatal w (length tr) of
        Some msg \<Rightarrow> (Inl (FailNow msg), tr @ [ev])
      | None \<Rightarrow> (Inr (returned_err w (length tr)), tr @ [ev]))"

definition require_NoError :: "string option \<Rightarrow> unit step" where
  "require_NoError err tr =
     (case err of None \<Rightarrow> (Inr (), tr) | Some msg \<Rightarrow> (Inl (FailNow msg), tr))"

definition require_Len :: "'a list \<Rightarrow> nat \<Rightarrow> unit step" where
  "require_Len object n tr =
     (if length object = n then (Inr (), tr) else (Inl (FailNow []), tr))"

subsection \<open>The convergence poller\<close>

text \<open>
  Modelled from the spec: \<open>retry.Run\<close> and \<open>retry.R\<close> (consul's \<open>sdk/testutil/retry\<close>) are
  not among the sources. The spec's poller, given a bounded number of attempts, runs the
  check closure again and again; the closure records zero or more failures per attempt;
  with no failure recorded the polling stops successfully; when the attempts are used up
  with failures outstanding, the last attempt's failures become the test's failure.
  \<open>retries\<close> is the number of attempts allowed after the first. The spec does not say
  whether an attempt goes on after \<open>r.Check\<close> was given an error: \<open>Check_ends_attempt\<close>
  leaves both open.
\<close>

record R =
  failed :: bool
  R_output :: "string list"

record Retryer =
  retries :: nat
  Check_ends_attempt :: bool

text \<open>Modelled from the spec: \<open>r.Errorf\<close> records a failure and the attempt goes on.\<close>

definition R_Errorf :: "string \<Rightarrow> R \<Rightarrow> R" where
  "R_Errorf msg r = r\<lparr>failed := True, R_output := R_output r @ [msg]\<rparr>"

text \<open>
  Modelled from the spec: \<open>r.Check(err)\<close> records a non-nil error as a failure of the
  attempt. It returns the new \<open>r\<close>, and whether the attempt goes on.
\<close>

definition R_Check :: "Retryer \<Rightarrow> string option \<Rightarrow> R \<Rightarrow> bool \<times> R" where
  "R_Check p err r =
     (case err of
        None \<Rightarrow> (True, r)
      | Some msg \<Rightarrow> (\<not> Check_ends_attempt p, R_Errorf msg r))"

text \<open>
  Modelled from the spec: every attempt starts with a new \<open>R\<close>, so no failure is carried
  from one attempt to the next.
\<close>

definition new_R :: R where
  "new_R = \<lparr>failed = False, R_output = []\<rparr>"

text \<open>
  Modelled from the spec: \<open>retry.Run(t, f)\<close>, with the number of attempts left after this
  one. An attempt with no failure ends the polling; a failed attempt is followed by the
  next one while any is left; the last failed attempt fails the test with its messages.
\<close>

fun retry_Run :: "nat \<Rightarrow> (R \<Rightarrow> event list \<Rightarrow> R \<times> event list) \<Rightarrow> unit step" where
  "retry_Run 0 f tr =
     (case f new_R tr of
        (r, tr') \<Rightarrow>
          if failed r then (Inl (FailNow (concat (R_output r))), tr') else (Inr (), tr'))"
| "retry_Run (Suc n) f tr =
     (case f new_R tr of
        (r, tr') \<Rightarrow> if failed r then retry_Run n f tr' else (Inr (), tr'))"

text \<open>The run as it is when attempt number \<open>i\<close> (from 0) starts, all earlier ones having failed.\<close>

fun attempt_start :: "nat \<Rightarrow> (R \<Rightarrow> event list \<Rightarrow> R \<times> event list) \<Rightarrow> event list \<Rightarrow> event list" where
  "attempt_start 0 f tr = tr"
| "attempt_start (Suc i) f tr = attempt_start i f (snd (f new_R tr))"

subsection \<open>TestConnectInject and TestConnectInjectOnUpgrade\<close>

record inject_case =
  clusterGen :: generator
  releaseName :: string
  secure :: bool
  autoEncrypt :: bool

definition TestConnectInject_case :: "collaborators \<Rightarrow> inject_case \<Rightarrow> unit step" where
  "TestConnectInject_case w c =
     bind (call w Call_DefaultContext) (\<lambda>_.
     let connHelper = \<lparr>ClusterGenerator = clusterGen c, Secure = secure c,
                        AutoEncrypt = autoEncrypt c, ReleaseName = releaseName c,
                        AdditionalHelmValues = Map.empty\<rparr>
     in
     bind (call_err w (Call_Install connHelper)) (\<lambda>err.
     bind (require_NoError err) (\<lambda>_.
     bind (call_err w (Call_TestInstallation connHelper)) (\<lambda>err.
     require_NoError err))))"

record TestCase =
  TestCase_secure :: bool
  TestCase_autoEncrypt :: bool
  TestCase_helmValues :: "string \<rightharpoonup> string"

record upgrade_case =
  upgrade_clusterGen :: generator
  upgrade_releaseName :: string
  initial :: TestCase
  upgrade :: TestCase

definition TestConnectInjectOnUpgrade_case :: "collaborators \<Rightarrow> upgrade_case \<Rightarrow> unit step" where
  "TestConnectInjectOnUpgrade_case w c =
     bind (call w Call_DefaultContext) (\<lambda>_.
     let connHelper = \<lparr>ClusterGenerator = upgrade_clusterGen c,
                        Secure = TestCase_secure (initial c),
                        AutoEncrypt = TestCase_autoEncrypt (initial c),
                        ReleaseName = upgrade_releaseName c,
                        AdditionalHelmValues = Map.empty\<rparr>
     in
     bind (call_err w (Call_Install connHelper)) (\<lambda>err.
     bind (require_NoError err) (\<lambda>_.
     bind (call_err w (Call_TestInstallation connHelper)) (\<lambda>err.
     bind (require_NoError err) (\<lambda>_.
     let connHelper' = connHelper\<lparr>Secure := TestCase_secure (upgrade c),
                                   AutoEncrypt := TestCase_autoEncrypt (upgrade c),
                                   AdditionalHelmValues := TestCase_helmValues (upgrade c)\<rparr>
     in
     bind (call_err w (Call_Upgrade connHelper')) (\<lambda>err.
     bind (require_NoError err) (\<lambda>_.
     bind (call_err w (Call_TestInstallation connHelper')) (\<lambda>err.
     require_NoError err))))))))"

subsection \<open>TestConnectInject\_CleanupKilledPods\<close>

text \<open>\<open>strconv.FormatBool\<close>.\<close>

definition FormatBool :: "bool \<Rightarrow> string" where
  "FormatBool b = (if b then ''true'' else ''false'')"

definition helmValues :: "bool \<Rightarrow> bool \<Rightarrow> (string \<rightharpoonup> string)" where
  "helmValues secure' autoEncrypt' =
     [''connectInject.enabled'' \<mapsto> ''true'',
      ''global.tls.enabled'' \<mapsto> FormatBool secure',
      ''global.tls.enableAutoEncrypt'' \<mapsto> FormatBool autoEncrypt',
      ''global.acls.manageSystemACLs'' \<mapsto> FormatBool secure']"

definition service_names :: "string list" where
  "service_names = [''static-client'', ''static-client-sidecar-proxy'']"

text \<open>
  \<open>consulClient.Catalog().Service(name, "", nil)\<close>: the instances and the error of the
  moment; the call is added to the run.
\<close>

definition Catalog_Service ::
    "collaborators \<Rightarrow> string \<Rightarrow> event list \<Rightarrow> (CatalogService list \<times> string option) \<times> event list" where
  "Catalog_Service w name tr =
     ((returned_instances w (length tr), returned_err w (length tr)),
      tr @ [Call_Catalog_Service name])"

text \<open>The closure of the first \<open>retry.Run\<close>, as the loop over the names left to check.\<close>

fun registered ::
    "Retryer \<Rightarrow> collaborators \<Rightarrow> string list \<Rightarrow> R \<Rightarrow> event list \<Rightarrow> R \<times> event list" where
  "registered p w [] r tr = (r, tr)"
| "registered p w (name # names) r tr =
     (case Catalog_Service w name tr of
        ((instances, err), tr1) \<Rightarrow>
          (case R_Check p err r of
             (False, r1) \<Rightarrow> (r1, tr1)
           | (True, r1) \<Rightarrow>
               registered p w names
                 (if length instances \<noteq> 1
                  then R_Errorf (''expected 1 instance of '' @ name) r1 else r1)
                 tr1))"

text \<open>The inner loop of the second closure, over the instances of one service.\<close>

fun still_registered :: "string \<Rightarrow> CatalogService list \<Rightarrow> R \<Rightarrow> R" where
  "still_registered podName [] r = r"
| "still_registered podName (instance # instances) r =
     still_registered podName instances
       (if Contains (ServiceID instance) podName
        then R_Errorf (ServiceID instance @ '' is still registered'') r else r)"

fun deregistered ::
    "Retryer \<Rightarrow> collaborators \<Rightarrow> string \<Rightarrow> string list \<Rightarrow> R \<Rightarrow> event list \<Rightarrow> R \<times> event list" where
  "deregistered p w podName [] r tr = (r, tr)"
| "deregistered p w podName (name # names) r tr =
     (case Catalog_Service w name tr of
        ((instances, err), tr1) \<Rightarrow>
          (case R_Check p err r of
             (False, r1) \<Rightarrow> (r1, tr1)
           | (True, r1) \<Rightarrow>
               deregistered p w podName names (still_registered podName instances r1) tr1))"

text \<open>\<open>ctx.KubectlOptions(t)\<close>, for its value.\<close>

definition ctx_KubectlOptions :: "collaborators \<Rightarrow> KubectlOptions step" where
  "ctx_KubectlOptions w tr =
     (case fatal w (length tr) of
        Some msg \<Rightarrow> (Inl (FailNow msg), tr @ [Call_KubectlOptions])
      | None \<Rightarrow> (Inr (returned_options w (length tr)), tr @ [Call_KubectlOptions]))"

text \<open>\<open>Pods(ns).List\<close> and \<open>Pods(ns).Delete\<close> of the client: no test handle, an error returned.\<close>

definition Pods_List :: "collaborators \<Rightarrow> string \<Rightarrow> string \<Rightarrow> (Pod list \<times> string option) step" where
  "Pods_List w ns labelSelector tr =
     (Inr (returned_pods w (length tr), returned_err w (length tr)),
      tr @ [Call_Pods_List ns labelSelector])"

definition Pods_Delete :: "collaborators \<Rightarrow> string \<Rightarrow> string \<Rightarrow> int \<Rightarrow> (string option) step" where
  "Pods_Delete w ns name gracePeriodSeconds tr =
     (Inr (returned_err w (length tr)), tr @ [Call_Pods_Delete ns name gracePeriodSeconds])"

definition TestConnectInject_CleanupKilledPods_case ::
    "Retryer \<Rightarrow> collaborators \<Rightarrow> TestConfig \<Rightarrow> bool \<times> bool \<Rightarrow> unit step" where
  "TestConnectInject_CleanupKilledPods_case p w cfg c =
     (case c of (secure', autoEncrypt') \<Rightarrow>
     bind (call w Call_DefaultContext) (\<lambda>_.
     bind (call w (Call_NewHelmCluster (helmValues secure' autoEncrypt') (RandomName w))) (\<lambda>_.
     bind (call w Call_Create) (\<lambda>_.
     bind (ctx_KubectlOptions w) (\<lambda>_.
     bind (call w (Call_DeployKustomize (NoCleanupOnFailure cfg) (DebugDirectory cfg)
                     ''../fixtures/cases/static-client-inject'')) (\<lambda>_.
     bind (call w (Call_SetupConsulClient secure')) (\<lambda>_.
     bind (retry_Run (retries p) (registered p w service_names)) (\<lambda>_.
     bind (ctx_KubectlOptions w) (\<lambda>opts.
     let ns = Namespace opts in
     bind (call w Call_KubernetesClient) (\<lambda>_.
     bind (Pods_List w ns ''app=static-client'') (\<lambda>(pods, err).
     bind (require_NoError err) (\<lambda>_.
     bind (require_Len pods 1) (\<lambda>_.
     let podName = Name (pods ! 0) in
     bind (call w Call_KubernetesClient) (\<lambda>_.
     bind (Pods_Delete w ns podName 0) (\<lambda>err.
     bind (require_NoError err) (\<lambda>_.
     retry_Run (retries p) (deregistered p w podName service_names)))))))))))))))))"

section \<open>Example data\<close>

text \<open>
  A kubeconfig at \<open>/kube/config\<close> whose current context \<open>dc1\<close> records the namespace
  \<open>teamA\<close> and whose context \<open>secondary\<close> records none.
\<close>

definition kube_teamA :: kube where
  "kube_teamA =
     \<lparr>GetConfigPath = (\<lambda>opts. if ConfigPath opts = [] then Inl ''no kubeconfig''
                               else Inr (ConfigPath opts)),
      RawConfig = (\<lambda>path. if path = ''/kube/config''
         then Inr \<lparr>CurrentContext = ''dc1'',
                   Contexts = [''dc1'' \<mapsto> \<lparr>ContextNamespace = ''teamA''\<rparr>,
                               ''secondary'' \<mapsto> \<lparr>ContextNamespace = []\<rparr>]\<rparr>
         else Inl ''no such file''),
      LoadApiClientConfigE = (\<lambda>path name. if path = ''/kube/config''
         then Inr (rest_Config ''https://a.example'') else Inl ''no such file''),
      NewForConfig = (\<lambda>config. Inr (Clientset config))\<rparr>"

text \<open>The same file after an edit: \<open>dc1\<close> now records \<open>teamB\<close> and another server.\<close>

definition kube_teamB :: kube where
  "kube_teamB =
     kube_teamA\<lparr>RawConfig := (\<lambda>path. if path = ''/kube/config''
         then Inr \<lparr>CurrentContext = ''dc1'',
                   Contexts = [''dc1'' \<mapsto> \<lparr>ContextNamespace = ''teamB''\<rparr>]\<rparr>
         else Inl ''no such file''),
       LoadApiClientConfigE := (\<lambda>path name. if path = ''/kube/config''
         then Inr (rest_Config ''https://b.example'') else Inl ''no such file'')\<rparr>"

text \<open>The file with no current context set.\<close>

definition kube_no_current_context :: kube where
  "kube_no_current_context =
     kube_teamA\<lparr>RawConfig := (\<lambda>path. if path = ''/kube/config''
         then Inr \<lparr>CurrentContext = [],
                   Contexts = [''dc1'' \<mapsto> \<lparr>ContextNamespace = ''teamA''\<rparr>]\<rparr>
         else Inl ''no such file'')\<rparr>"

definition empty_heap :: heap where
  "empty_heap = \<lparr>contexts_mem = [], options_mem = [], clients_mem = []\<rparr>"

text \<open>The heap after \<open>NewContext("", "/kube/config", "")\<close>; the context is at address 0.\<close>

definition one_context :: heap where
  "one_context = snd (NewContext [] ''/kube/config'' [] empty_heap)"

definition multi_cluster_config :: TestConfig where
  "multi_cluster_config =
     \<lparr>KubeNamespace = [], Kubeconfig = ''/kube/config'', KubeContext = ''dc1'',
      EnableMultiCluster = True,
      SecondaryKubeNamespace = [], SecondaryKubeconfig = ''/kube/config'',
      SecondaryKubeContext = ''secondary'',
      NoCleanupOnFailure = False, DebugDirectory = []\<rparr>"

definition two_options :: heap where
  "two_options =
     \<lparr>contexts_mem = [],
      options_mem = [\<lparr>ContextName = ''secondary'', ConfigPath = ''/kube/config'', Namespace = []\<rparr>,
                     \<lparr>ContextName = [], ConfigPath = ''/kube/config'', Namespace = []\<rparr>],
      clients_mem = []\<rparr>"

text \<open>
  Collaborators that never fail: both services have one instance until the pod is deleted
  (the deletion is call 12 of the run) and none afterwards.
\<close>

definition steady :: collaborators where
  "steady =
     \<lparr>fatal = (\<lambda>_. None), returned_err = (\<lambda>_. None),
      returned_instances =
        (\<lambda>t. if t < 8 then [\<lparr>ServiceID = ''static-client-7f9-static-client''\<rparr>] else []),
      returned_pods = (\<lambda>_. [\<lparr>Name = ''static-client-7f9''\<rparr>]),
      returned_options = (\<lambda>_. \<lparr>ContextName = [], ConfigPath = [], Namespace = ''default''\<rparr>),
      RandomName = ''test-abc''\<rparr>"

text \<open>
  The same, but the instance of the killed pod is still registered in the first attempt
  after the deletion; from the second attempt on each service has the instance of the
  replacement pod.
\<close>

definition slow_deregistration :: collaborators where
  "slow_deregistration =
     steady\<lparr>returned_instances :=
        (\<lambda>t. if t < 15 then [\<lparr>ServiceID = ''static-client-7f9-static-client''\<rparr>]
             else [\<lparr>ServiceID = ''static-client-9a2-static-client''\<rparr>])\<rparr>"

text \<open>The same, but every lookup after the deletion returns an error.\<close>

definition lookup_fails_after_delete :: collaborators where
  "lookup_fails_after_delete =
     steady\<lparr>returned_err := (\<lambda>t. if 13 \<le> t then Some ''connection refused'' else None)\<rparr>"

text \<open>The very first lookup returns an error, the later ones one instance each.\<close>

definition first_lookup_fails :: collaborators where
  "first_lookup_fails =
     \<lparr>fatal = (\<lambda>_. None),
      returned_err = (\<lambda>t. if t = 0 then Some ''connection refused'' else None),
      returned_instances = (\<lambda>_. [\<lparr>ServiceID = ''static-client-7f9-static-client''\<rparr>]),
      returned_pods = (\<lambda>_. [\<lparr>Name = ''static-client-7f9''\<rparr>]),
      returned_options = (\<lambda>_. \<lparr>ContextName = [], ConfigPath = [], Namespace = ''default''\<rparr>),
      RandomName = ''test-abc''\<rparr>"

definition one_attempt :: Retryer where
  "one_attempt = \<lparr>retries = 0, Check_ends_attempt = True\<rparr>"

definition two_attempts :: Retryer where
  "two_attempts = \<lparr>retries = 1, Check_ends_attempt = True\<rparr>"

definition helm_case :: inject_case where
  "helm_case = \<lparr>clusterGen = NewHelmCluster, releaseName = ''test-abc'', secure = True,
                 autoEncrypt = False\<rparr>"

definition helm_upgrade_case :: upgrade_case where
  "helm_upgrade_case =
     \<lparr>upgrade_clusterGen = NewHelmCluster, upgrade_releaseName = ''test-abc'',
      initial = \<lparr>TestCase_secure = False, TestCase_autoEncrypt = False,
                 TestCase_helmValues = Map.empty\<rparr>,
      upgrade = \<lparr>TestCase_secure = False, TestCase_autoEncrypt = False,
                 TestCase_helmValues = Map.empty\<rparr>\<rparr>"

section \<open>Properties of the environment\<close>

subsection \<open>Auxiliary facts\<close>

lemma Contains_iff: "Contains s substr \<longleftrightarrow> (\<exists>p q. s = p @ substr @ q)"
proof (induction s)
  case Nil
  then show ?case by auto
next
  case (Cons c s)
  show ?case
  proof
    assume "Contains (c # s) substr"
    then consider "prefix substr (c # s)" | "Contains s substr" by auto
    then show "\<exists>p q. c # s = p @ substr @ q"
    proof cases
      case 1
      then obtain q where "c # s = substr @ q" by (auto simp: prefix_def)
      then have "c # s = [] @ substr @ q" by simp
      then show ?thesis by blast
    next
      case 2
      with Cons.IH obtain p q where "s = p @ substr @ q" by blast
      then have "c # s = (c # p) @ substr @ q" by simp
      then show ?thesis by blast
    qed
  next
    assume "\<exists>p q. c # s = p @ substr @ q"
    then obtain p q where pq: "c # s = p @ substr @ q" by blast
    show "Contains (c # s) substr"
    proof (cases p)
      case Nil
      with pq have "prefix substr (c # s)" by (simp add: prefix_def)
      then show ?thesis by simp
    next
      case (Cons a p')
      with pq have "s = p' @ substr @ q" by simp
      with Cons.IH have "Contains s substr" by blast
      then show ?thesis by simp
    qed
  qed
qed

lemma Contains_middle: "Contains (p @ substr @ q) substr"
  unfolding Contains_iff by blast

lemmas env_defs =
  TestContext_KubectlOptions_def TestContext_KubernetesClient_def KubectlOptions_def
  KubernetesClient_def KubernetesClientFromOptions_def KubernetesContextFromOptions_def
  load_context_def load_options_def load_client_def store_Namespace_def NewContext_def
  NamespaceDefault_def

text \<open>Neither method writes to a context in the heap, whatever it returns.\<close>

lemma KubectlOptions_contexts_mem:
  "KubectlOptions w k h = Inr (p, h') \<Longrightarrow> contexts_mem h' = contexts_mem h"
  by (auto simp: KubectlOptions_def store_Namespace_def Let_def
           split: if_splits sum.splits option.splits)

lemma KubernetesClient_contexts_mem:
  assumes "KubernetesClient w k h = Inr (p, h')"
  shows "contexts_mem h' = contexts_mem h"
proof (cases "client k \<noteq> None")
  case True
  with assms show ?thesis by (simp add: KubernetesClient_def)
next
  case False
  with assms obtain o' h1 where
    1: "KubectlOptions w k h = Inr (o', h1)" and
    2: "KubernetesClientFromOptions w o' h1 = Inr (p, h')"
    by (auto simp: KubernetesClient_def split: sum.splits)
  from 2 have "contexts_mem h' = contexts_mem h1"
    by (auto simp: KubernetesClientFromOptions_def split: sum.splits option.splits)
  with KubectlOptions_contexts_mem [OF 1] show ?thesis by simp
qed

subsection \<open>C1: memoization of options and client\<close>

text \<open>
  C1 says that the options (the client) computed by the first call are cached on the
  context and returned by every later call. The code does not do so. On the context
  \<open>NewContext("", "/kube/config", "")\<close>, a first call of \<open>KubectlOptions\<close> returns a new
  options object with namespace \<open>teamA\<close>; after the kubeconfig file has changed, a second
  call on the same context returns another new object, with namespace \<open>teamB\<close>, and the
  context's \<open>options\<close> field is still nil. \<open>KubernetesClient\<close> likewise builds a second
  client, and the context's \<open>client\<close> field is still nil.
\<close>

theorem accessors_do_not_cache:
  "(case TestContext_KubectlOptions kube_teamA (Some 0) one_context of
      Inl _ \<Rightarrow> False
    | Inr (p1, h1) \<Rightarrow>
        (case TestContext_KubectlOptions kube_teamB (Some 0) h1 of
           Inl _ \<Rightarrow> False
         | Inr (p2, h2) \<Rightarrow>
             p1 = Some 0 \<and> p2 = Some 1
             \<and> map_option Namespace (load_options h2 p1) = Some ''teamA''
             \<and> map_option Namespace (load_options h2 p2) = Some ''teamB''
             \<and> map_option options (load_context h2 (Some 0)) = Some None))
   \<and> (case TestContext_KubernetesClient kube_teamA (Some 0) one_context of
      Inl _ \<Rightarrow> False
    | Inr (p1, h1) \<Rightarrow>
        (case TestContext_KubernetesClient kube_teamB (Some 0) h1 of
           Inl _ \<Rightarrow> False
         | Inr (p2, h2) \<Rightarrow>
             p1 = Some 0 \<and> p2 = Some 1
             \<and> load_client h2 p1 = Some (Clientset (rest_Config ''https://a.example''))
             \<and> load_client h2 p2 = Some (Clientset (rest_Config ''https://b.example''))
             \<and> map_option client (load_context h2 (Some 0)) = Some None))"
  by (simp add: env_defs one_context_def empty_heap_def kube_teamA_def kube_teamB_def)

subsection \<open>C2: the entries of an environment\<close>

text \<open>
  C2 as stated: an environment from either constructor has a \<open>secondary\<close> entry if and
  only if multi-cluster mode is enabled in the configuration. It fails for
  \<open>NewKubernetesEnvironmentFromContext\<close>, which never adds one.
\<close>

theorem secondary_iff_multi_cluster_counterexample:
  "\<not> (SecondaryContextName \<in> dom (contexts (NewKubernetesEnvironmentFromContext (Some 0)))
        \<longleftrightarrow> EnableMultiCluster multi_cluster_config)"
  by (simp add: NewKubernetesEnvironmentFromContext_def SecondaryContextName_def
        DefaultContextName_def multi_cluster_config_def)

text \<open>
  C2, amended: \<open>NewKubernetesEnvironmentFromConfig\<close> on a configuration returns an
  environment with a \<open>default\<close> entry, and with a \<open>secondary\<close> entry if and only if
  \<open>EnableMultiCluster\<close> is set; \<open>NewKubernetesEnvironmentFromContext\<close> returns one with a
  \<open>default\<close> entry and no \<open>secondary\<close> entry; \<open>Context\<close> and \<open>DefaultContext\<close> leave the
  environment as it was.
\<close>

theorem environment_contexts:
  "(\<exists>kenv h'. NewKubernetesEnvironmentFromConfig (Some cfg) h = Inr (kenv, h')
       \<and> DefaultContextName \<in> dom (contexts kenv)
       \<and> (SecondaryContextName \<in> dom (contexts kenv) \<longleftrightarrow> EnableMultiCluster cfg))
   \<and> DefaultContextName \<in> dom (contexts (NewKubernetesEnvironmentFromContext context))
   \<and> SecondaryContextName \<notin> dom (contexts (NewKubernetesEnvironmentFromContext context))
   \<and> snd (Context k name) = k \<and> snd (DefaultContext k) = k"
  by (cases "EnableMultiCluster cfg")
     (simp_all add: NewKubernetesEnvironmentFromConfig_def NewKubernetesEnvironmentFromContext_def
        NewContext_def Context_def DefaultContext_def SecondaryContextName_def
        DefaultContextName_def Let_def split: option.splits)

theorem environment_contexts_witness:
  "(\<exists>kenv h'. NewKubernetesEnvironmentFromConfig (Some multi_cluster_config) empty_heap
                 = Inr (kenv, h')
       \<and> ''default'' \<in> dom (contexts kenv) \<and> ''secondary'' \<in> dom (contexts kenv))
   \<and> ''secondary'' \<notin> dom (contexts (NewKubernetesEnvironmentFromContext (Some 0)))"
  using environment_contexts [of multi_cluster_config empty_heap "Some 0"]
  by (simp add: multi_cluster_config_def SecondaryContextName_def DefaultContextName_def)

subsection \<open>C3: a name that is not registered\<close>

text \<open>
  C3: for a name with no entry, \<open>Context\<close> fails the test with the message
  \<open>requested context <name> not found\<close>, which contains \<open>requested context\<close> and
  \<open>not found\<close>; it neither panics nor returns a context. \<open>DefaultContext\<close> fails with
  \<open>default context not found\<close> when there is no default entry.
\<close>

theorem Context_not_found:
  "(contexts k name = None \<longrightarrow>
      fst (Context k name) = Inl (FailNow (''requested context '' @ name @ '' not found''))
      \<and> Contains (''requested context '' @ name @ '' not found'') ''requested context''
      \<and> Contains (''requested context '' @ name @ '' not found'') ''not found'')
   \<and> (contexts k DefaultContextName = None \<longrightarrow>
      fst (DefaultContext k) = Inl (FailNow ''default context not found'')
      \<and> Contains ''default context not found'' ''not found'')"
proof -
  have 1: "Contains (''requested context '' @ name @ '' not found'') ''requested context''"
    using Contains_middle [of "[]" "''requested context''" "'' '' @ name @ '' not found''"]
    by simp
  have 2: "Contains (''requested context '' @ name @ '' not found'') ''not found''"
    using Contains_middle [of "''requested context '' @ name @ '' ''" "''not found''" "[]"]
    by simp
  have 3: "Contains ''default context not found'' ''not found''"
    by simp
  show ?thesis
    using 1 2 3 by (simp add: Context_def DefaultContext_def)
qed

theorem Context_not_found_witness:
  "contexts (NewKubernetesEnvironmentFromContext (Some 0)) ''nonexistent'' = None
   \<and> fst (Context (NewKubernetesEnvironmentFromContext (Some 0)) ''nonexistent'')
       = Inl (FailNow ''requested context nonexistent not found'')
   \<and> contexts \<lparr>contexts = Map.empty\<rparr> DefaultContextName = None
   \<and> fst (DefaultContext \<lparr>contexts = Map.empty\<rparr>) = Inl (FailNow ''default context not found'')"
  using Context_not_found [of "NewKubernetesEnvironmentFromContext (Some 0)" "''nonexistent''"]
    Context_not_found [of "\<lparr>contexts = Map.empty\<rparr>" "[]"]
  by (simp add: NewKubernetesEnvironmentFromContext_def DefaultContextName_def)

subsection \<open>C4: the namespace of the options\<close>

text \<open>
  C4 says that for an empty stored namespace the options carry the namespace recorded for
  the active context and otherwise the default namespace, as the comment in the method
  does. The code does not reach the default when the file has no entry for the active
  context: \<open>rawConfig.Contexts[contextName]\<close> is then nil and reading its \<open>Namespace\<close>
  panics. That happens for the stored context name \<open>dc3\<close>, which the file does not hold,
  and for an empty stored name when the file sets no current context.
\<close>

theorem KubectlOptions_absent_context_panics:
  "(case RawConfig kube_teamA ''/kube/config'' of
      Inl _ \<Rightarrow> False | Inr rawConfig \<Rightarrow> Contexts rawConfig ''dc3'' = None)
   \<and> KubectlOptions kube_teamA
        \<lparr>pathToKubeConfig = ''/kube/config'', kubeContextName = ''dc3'',
          namespace = [], client = None, options = None\<rparr> empty_heap = Inl NilPointerPanic
   \<and> (case RawConfig kube_no_current_context ''/kube/config'' of
      Inl _ \<Rightarrow> False
    | Inr rawConfig \<Rightarrow> CurrentContext rawConfig = [] \<and> Contexts rawConfig [] = None)
   \<and> KubectlOptions kube_no_current_context
        \<lparr>pathToKubeConfig = ''/kube/config'', kubeContextName = [],
          namespace = [], client = None, options = None\<rparr> empty_heap = Inl NilPointerPanic"
  by (simp add: env_defs kube_teamA_def kube_no_current_context_def empty_heap_def)

text \<open>
  What the method does otherwise: on a context with no options yet it returns options that
  carry the stored namespace when it is not empty. When it is empty, and the config path
  resolves, the file loads and holds the active context (the stored context name, or the
  file's current context when that name is empty), the options carry the namespace
  recorded for that context, or \<open>default\<close> when none is recorded.
\<close>

lemma KubectlOptions_namespace:
  assumes "options k = None"
  shows "(namespace k \<noteq> [] \<longrightarrow>
           (\<exists>p h'. KubectlOptions w k h = Inr (p, h')
              \<and> load_options h' p =
                  Some \<lparr>ContextName = kubeContextName k, ConfigPath = pathToKubeConfig k,
                        Namespace = namespace k\<rparr>))
       \<and> (namespace k = []
            \<and> GetConfigPath w \<lparr>ContextName = kubeContextName k,
                                ConfigPath = pathToKubeConfig k, Namespace = []\<rparr> = Inr configPath
            \<and> RawConfig w configPath = Inr rawConfig
            \<and> Contexts rawConfig (if kubeContextName k \<noteq> [] then kubeContextName k
                                    else CurrentContext rawConfig) = Some c \<longrightarrow>
           (\<exists>p h'. KubectlOptions w k h = Inr (p, h')
              \<and> load_options h' p =
                  Some \<lparr>ContextName = kubeContextName k, ConfigPath = pathToKubeConfig k,
                        Namespace = (if ContextNamespace c \<noteq> [] then ContextNamespace c
                                     else ''default'')\<rparr>))"
  using assms
  by (auto simp: KubectlOptions_def KubernetesContextFromOptions_def load_options_def
        store_Namespace_def NamespaceDefault_def Let_def)

lemma KubectlOptions_namespace_example:
  "(\<exists>p h'. KubectlOptions kube_teamA
              \<lparr>pathToKubeConfig = ''/kube/config'', kubeContextName = ''secondary'',
                namespace = [], client = None, options = None\<rparr> empty_heap = Inr (p, h')
           \<and> load_options h' p =
               Some \<lparr>ContextName = ''secondary'', ConfigPath = ''/kube/config'',
                     Namespace = ''default''\<rparr>)
   \<and> (\<exists>p h'. KubectlOptions kube_teamA
              \<lparr>pathToKubeConfig = ''/kube/config'', kubeContextName = [],
                namespace = [], client = None, options = None\<rparr> empty_heap = Inr (p, h')
           \<and> load_options h' p =
               Some \<lparr>ContextName = [], ConfigPath = ''/kube/config'',
                     Namespace = ''teamA''\<rparr>)
   \<and> (\<exists>p h'. KubectlOptions kube_teamA
              \<lparr>pathToKubeConfig = ''/kube/config'', kubeContextName = ''dc1'',
                namespace = ''consul'', client = None, options = None\<rparr> empty_heap = Inr (p, h')
           \<and> load_options h' p =
               Some \<lparr>ContextName = ''dc1'', ConfigPath = ''/kube/config'',
                     Namespace = ''consul''\<rparr>)"
  using KubectlOptions_namespace [of
          "\<lparr>pathToKubeConfig = ''/kube/config'', kubeContextName = ''secondary'',
            namespace = [], client = None, options = None\<rparr>"
          kube_teamA empty_heap "''/kube/config''"
          "\<lparr>CurrentContext = ''dc1'',
            Contexts = [''dc1'' \<mapsto> \<lparr>ContextNamespace = ''teamA''\<rparr>,
                        ''secondary'' \<mapsto> \<lparr>ContextNamespace = []\<rparr>]\<rparr>"
          "\<lparr>ContextNamespace = []\<rparr>"]
        KubectlOptions_namespace [of
          "\<lparr>pathToKubeConfig = ''/kube/config'', kubeContextName = [],
            namespace = [], client = None, options = None\<rparr>"
          kube_teamA empty_heap "''/kube/config''"
          "\<lparr>CurrentContext = ''dc1'',
            Contexts = [''dc1'' \<mapsto> \<lparr>ContextNamespace = ''teamA''\<rparr>,
                        ''secondary'' \<mapsto> \<lparr>ContextNamespace = []\<rparr>]\<rparr>"
          "\<lparr>ContextNamespace = ''teamA''\<rparr>"]
        KubectlOptions_namespace [of
          "\<lparr>pathToKubeConfig = ''/kube/config'', kubeContextName = ''dc1'',
            namespace = ''consul'', client = None, options = None\<rparr>"
          kube_teamA empty_heap]
  by (simp add: kube_teamA_def)

subsection \<open>C5: the active context name\<close>

text \<open>
  C5: \<open>KubernetesContextFromOptions\<close> returns the options' \<open>ContextName\<close> when it is not
  empty, and otherwise the current context of the config file loaded from the options'
  config path.
\<close>

theorem KubernetesContextFromOptions_result:
  assumes "load_options h p = Some opts"
  shows "(ContextName opts \<noteq> [] \<longrightarrow>
            KubernetesContextFromOptions w h p = Inr (ContextName opts))
       \<and> (ContextName opts = [] \<and> GetConfigPath w opts = Inr configPath
            \<and> RawConfig w configPath = Inr rawConfig \<longrightarrow>
            KubernetesContextFromOptions w h p = Inr (CurrentContext rawConfig))"
  using assms by (simp add: KubernetesContextFromOptions_def)

theorem KubernetesContextFromOptions_result_witness:
  "load_options two_options (Some 0) \<noteq> None \<and> load_options two_options (Some 1) \<noteq> None
   \<and> KubernetesContextFromOptions kube_teamA two_options (Some 0) = Inr ''secondary''
   \<and> KubernetesContextFromOptions kube_teamA two_options (Some 1) = Inr ''dc1''"
  using KubernetesContextFromOptions_result [of two_options "Some 0"
          "\<lparr>ContextName = ''secondary'', ConfigPath = ''/kube/config'', Namespace = []\<rparr>"
          kube_teamA]
        KubernetesContextFromOptions_result [of two_options "Some 1"
          "\<lparr>ContextName = [], ConfigPath = ''/kube/config'', Namespace = []\<rparr>"
          kube_teamA "''/kube/config''"
          "\<lparr>CurrentContext = ''dc1'',
            Contexts = [''dc1'' \<mapsto> \<lparr>ContextNamespace = ''teamA''\<rparr>,
                        ''secondary'' \<mapsto> \<lparr>ContextNamespace = []\<rparr>]\<rparr>"]
  by (simp add: two_options_def load_options_def kube_teamA_def)

subsection \<open>C10: an environment built from one context\<close>

text \<open>
  C10: \<open>NewKubernetesEnvironmentFromContext\<close> takes no configuration; its environment has
  the one entry \<open>default\<close>, and \<open>Context\<close> on \<open>secondary\<close> fails the test with
  \<open>requested context secondary not found\<close>.
\<close>

theorem FromContext_only_default:
  "dom (contexts (NewKubernetesEnvironmentFromContext context)) = {DefaultContextName}
   \<and> Context (NewKubernetesEnvironmentFromContext context) SecondaryContextName
       = (Inl (FailNow ''requested context secondary not found''),
          NewKubernetesEnvironmentFromContext context)"
  by (simp add: NewKubernetesEnvironmentFromContext_def Context_def SecondaryContextName_def
        DefaultContextName_def)

section \<open>Properties of the connect-inject tests\<close>

subsection \<open>Auxiliary facts: lists, the poller, the two checks\<close>

lemmas test_defs =
  TestConnectInject_CleanupKilledPods_case_def TestConnectInject_case_def
  TestConnectInjectOnUpgrade_case_def bind_def call_def call_err_def
  ctx_KubectlOptions_def Pods_List_def Pods_Delete_def require_NoError_def require_Len_def
  Catalog_Service_def R_Check_def R_Errorf_def new_R_def service_names_def

lemma unique_split:
  "xs @ d # ys = pre @ e # post \<Longrightarrow> P e \<Longrightarrow> \<forall>x\<in>set xs. \<not> P x \<Longrightarrow> \<forall>y\<in>set ys. \<not> P y
     \<Longrightarrow> pre = xs \<and> e = d \<and> post = ys"
proof (induction xs arbitrary: pre)
  case Nil
  then show ?case by (cases pre) auto
next
  case (Cons x xs)
  show ?case
  proof (cases pre)
    case Nil
    with Cons.prems show ?thesis by auto
  next
    case pre: (Cons a pre')
    with Cons.prems have eq: "xs @ d # ys = pre' @ e # post" and a: "a = x" by auto
    from Cons.prems have "\<forall>x\<in>set xs. \<not> P x" by simp
    with Cons.IH [OF eq] Cons.prems(2,4) have "pre' = xs \<and> e = d \<and> post = ys" by blast
    with pre a show ?thesis by simp
  qed
qed

lemma R_Check_failed: "R_Check p err r = (go, r1) \<Longrightarrow> failed r \<Longrightarrow> failed r1"
  by (auto simp: R_Check_def R_Errorf_def split: option.splits)

lemma registered_failed: "failed r \<Longrightarrow> failed (fst (registered p w names r tr))"
proof (induction names arbitrary: r tr)
  case Nil
  then show ?case by simp
next
  case (Cons name names)
  then show ?case
    by (auto simp: Catalog_Service_def R_Check_def R_Errorf_def split: option.splits bool.splits)
qed

lemma still_registered_failed:
  "failed (still_registered podName instances r) \<longleftrightarrow>
     failed r \<or> (\<exists>i\<in>set instances. Contains (ServiceID i) podName)"
  by (induction instances arbitrary: r) (auto simp: R_Errorf_def)

lemma deregistered_failed: "failed r \<Longrightarrow> failed (fst (deregistered p w podName names r tr))"
proof (induction names arbitrary: r tr)
  case Nil
  then show ?case by simp
next
  case (Cons name names)
  then show ?case
    by (auto simp: Catalog_Service_def R_Check_def R_Errorf_def still_registered_failed
          split: option.splits bool.splits)
qed

lemma registered_trace:
  "\<exists>qs. snd (registered p w names r tr) = tr @ qs \<and> (\<forall>e\<in>set qs. \<exists>name. e = Call_Catalog_Service name)"
proof (induction names arbitrary: r tr)
  case Nil
  then show ?case by simp
next
  case (Cons name names)
  show ?case
  proof (cases "fst (R_Check p (returned_err w (length tr)) r)")
    case False
    then show ?thesis
      by (auto simp: Catalog_Service_def split: prod.splits bool.splits)
  next
    case True
    obtain r1 where r1: "R_Check p (returned_err w (length tr)) r = (True, r1)"
      using True by (cases "R_Check p (returned_err w (length tr)) r") auto
    define r2 where "r2 = (if length (returned_instances w (length tr)) \<noteq> 1
                  then R_Errorf (''expected 1 instance of '' @ name) r1 else r1)"
    from Cons.IH [of r2 "tr @ [Call_Catalog_Service name]"] obtain qs where
      "snd (registered p w names r2 (tr @ [Call_Catalog_Service name])) = (tr @ [Call_Catalog_Service name]) @ qs"
      "\<forall>e\<in>set qs. \<exists>name. e = Call_Catalog_Service name" by blast
    then have "snd (registered p w (name # names) r tr) = tr @ (Call_Catalog_Service name # qs)
       \<and> (\<forall>e\<in>set (Call_Catalog_Service name # qs). \<exists>name. e = Call_Catalog_Service name)"
      using r1 by (simp add: Catalog_Service_def r2_def)
    then show ?thesis by blast
  qed
qed

lemma deregistered_trace:
  "\<exists>qs. snd (deregistered p w podName names r tr) = tr @ qs \<and> (\<forall>e\<in>set qs. \<exists>name. e = Call_Catalog_Service name)"
proof (induction names arbitrary: r tr)
  case Nil
  then show ?case by simp
next
  case (Cons name names)
  show ?case
  proof (cases "fst (R_Check p (returned_err w (length tr)) r)")
    case False
    then show ?thesis
      by (auto simp: Catalog_Service_def split: prod.splits bool.splits)
  next
    case True
    obtain r1 where r1: "R_Check p (returned_err w (length tr)) r = (True, r1)"
      using True by (cases "R_Check p (returned_err w (length tr)) r") auto
    define r2 where "r2 = still_registered podName (returned_instances w (length tr)) r1"
    from Cons.IH [of r2 "tr @ [Call_Catalog_Service name]"] obtain qs where
      "snd (deregistered p w podName names r2 (tr @ [Call_Catalog_Service name])) = (tr @ [Call_Catalog_Service name]) @ qs"
      "\<forall>e\<in>set qs. \<exists>name. e = Call_Catalog_Service name" by blast
    then have "snd (deregistered p w podName (name # names) r tr) = tr @ (Call_Catalog_Service name # qs)
       \<and> (\<forall>e\<in>set (Call_Catalog_Service name # qs). \<exists>name. e = Call_Catalog_Service name)"
      using r1 by (simp add: Catalog_Service_def r2_def)
    then show ?thesis by blast
  qed
qed

lemma retry_Run_trace:
  assumes f: "\<And>r tr. \<exists>qs. snd (f r tr) = tr @ qs \<and> (\<forall>e\<in>set qs. \<exists>name. e = Call_Catalog_Service name)"
  shows "\<exists>qs. snd (retry_Run n f tr) = tr @ qs \<and> (\<forall>e\<in>set qs. \<exists>name. e = Call_Catalog_Service name)"
proof (induction n arbitrary: tr)
  case 0
  from f [of new_R tr] show ?case
    by (auto split: prod.splits)
next
  case (Suc n)
  from f [of new_R tr] obtain qs where
    qs: "snd (f new_R tr) = tr @ qs" "\<forall>e\<in>set qs. \<exists>name. e = Call_Catalog_Service name" by blast
  show ?case
  proof (cases "failed (fst (f new_R tr))")
    case False
    with qs show ?thesis by (auto split: prod.splits)
  next
    case True
    from Suc.IH [of "tr @ qs"] obtain qs' where
      "snd (retry_Run n f (tr @ qs)) = (tr @ qs) @ qs'" "\<forall>e\<in>set qs'. \<exists>name. e = Call_Catalog_Service name"
      by blast
    with True qs have "snd (retry_Run (Suc n) f tr) = tr @ (qs @ qs')
       \<and> (\<forall>e\<in>set (qs @ qs'). \<exists>name. e = Call_Catalog_Service name)"
      by (auto split: prod.splits)
    then show ?thesis by blast
  qed
qed

lemma retry_Run_fails_iff:
  "fst (retry_Run n f tr) = Inr () \<longleftrightarrow> (\<exists>i\<le>n. \<not> failed (fst (f new_R (attempt_start i f tr))))"
proof (induction n arbitrary: tr)
  case 0
  show ?case by (auto split: prod.splits)
next
  case (Suc n)
  show ?case
  proof (cases "failed (fst (f new_R tr))")
    case False
    then have "fst (retry_Run (Suc n) f tr) = Inr ()" by (auto split: prod.splits)
    moreover from False have "\<not> failed (fst (f new_R (attempt_start 0 f tr)))" by simp
    ultimately show ?thesis by blast
  next
    case True
    then have "fst (retry_Run (Suc n) f tr) = fst (retry_Run n f (snd (f new_R tr)))"
      by (auto split: prod.splits)
    also have "\<dots> = Inr () \<longleftrightarrow> (\<exists>i\<le>n. \<not> failed (fst (f new_R (attempt_start (Suc i) f tr))))"
      using Suc.IH [of "snd (f new_R tr)"] by simp
    also have "\<dots> \<longleftrightarrow> (\<exists>i\<le>Suc n. \<not> failed (fst (f new_R (attempt_start i f tr))))"
    proof
      assume "\<exists>i\<le>n. \<not> failed (fst (f new_R (attempt_start (Suc i) f tr)))"
      then obtain i where "i \<le> n" "\<not> failed (fst (f new_R (attempt_start (Suc i) f tr)))" by blast
      then have "Suc i \<le> Suc n \<and> \<not> failed (fst (f new_R (attempt_start (Suc i) f tr)))" by simp
      then show "\<exists>i\<le>Suc n. \<not> failed (fst (f new_R (attempt_start i f tr)))" by blast
    next
      assume "\<exists>i\<le>Suc n. \<not> failed (fst (f new_R (attempt_start i f tr)))"
      then obtain i where i: "i \<le> Suc n" "\<not> failed (fst (f new_R (attempt_start i f tr)))" by blast
      with True obtain j where "i = Suc j" by (cases i) auto
      with i show "\<exists>i\<le>n. \<not> failed (fst (f new_R (attempt_start (Suc i) f tr)))" by auto
    qed
    finally show ?thesis .
  qed
qed

lemma registered_passes:
  "\<not> failed (fst (registered p w service_names new_R tr)) \<longleftrightarrow>
     returned_err w (length tr) = None \<and> length (returned_instances w (length tr)) = 1
     \<and> returned_err w (Suc (length tr)) = None
     \<and> length (returned_instances w (Suc (length tr))) = 1"
  by (auto simp: service_names_def Catalog_Service_def R_Check_def R_Errorf_def new_R_def
        registered_failed split: option.splits bool.splits)

lemma registered_passes_trace:
  "\<not> failed (fst (registered p w service_names new_R tr)) \<Longrightarrow>
     snd (registered p w service_names new_R tr)
       = tr @ [Call_Catalog_Service ''static-client'',
               Call_Catalog_Service ''static-client-sidecar-proxy'']"
  by (auto simp: service_names_def Catalog_Service_def R_Check_def R_Errorf_def new_R_def
        registered_failed split: option.splits if_splits bool.splits)

lemma deregistered_passes:
  "\<not> failed (fst (deregistered p w podName service_names new_R tr)) \<longleftrightarrow>
     returned_err w (length tr) = None \<and> returned_err w (Suc (length tr)) = None
     \<and> (\<forall>i \<in> set (returned_instances w (length tr)) \<union> set (returned_instances w (Suc (length tr))).
           \<not> Contains (ServiceID i) podName)"
  by (auto simp: service_names_def Catalog_Service_def R_Check_def R_Errorf_def new_R_def
        still_registered_failed deregistered_failed split: option.splits bool.splits)

lemma retry_Run_registered_confirmed:
  "retry_Run n (registered p w service_names) tr = (Inr (), tr') \<Longrightarrow>
     \<exists>qs. tr' = tr @ qs @ [Call_Catalog_Service ''static-client'',
                          Call_Catalog_Service ''static-client-sidecar-proxy'']
       \<and> returned_err w (length (tr @ qs)) = None
       \<and> length (returned_instances w (length (tr @ qs))) = 1
       \<and> returned_err w (Suc (length (tr @ qs))) = None
       \<and> length (returned_instances w (Suc (length (tr @ qs)))) = 1"
proof (induction n arbitrary: tr)
  case 0
  then have ok: "\<not> failed (fst (registered p w service_names new_R tr))"
    by (auto split: prod.splits if_splits)
  with 0 have "tr' = snd (registered p w service_names new_R tr)"
    by (auto split: prod.splits if_splits)
  with registered_passes_trace [OF ok] ok [unfolded registered_passes]
  have "tr' = tr @ [] @ [Call_Catalog_Service ''static-client'',
                          Call_Catalog_Service ''static-client-sidecar-proxy'']
       \<and> returned_err w (length (tr @ [])) = None
       \<and> length (returned_instances w (length (tr @ []))) = 1
       \<and> returned_err w (Suc (length (tr @ []))) = None
       \<and> length (returned_instances w (Suc (length (tr @ [])))) = 1" by simp
  then show ?case by blast
next
  case (Suc n)
  show ?case
  proof (cases "failed (fst (registered p w service_names new_R tr))")
    case False
    with Suc.prems have "tr' = snd (registered p w service_names new_R tr)"
      by (auto split: prod.splits if_splits)
    with registered_passes_trace [OF False] False [unfolded registered_passes]
    have "tr' = tr @ [] @ [Call_Catalog_Service ''static-client'',
                          Call_Catalog_Service ''static-client-sidecar-proxy'']
       \<and> returned_err w (length (tr @ [])) = None
       \<and> length (returned_instances w (length (tr @ []))) = 1
       \<and> returned_err w (Suc (length (tr @ []))) = None
       \<and> length (returned_instances w (Suc (length (tr @ [])))) = 1" by simp
    then show ?thesis by blast
  next
    case True
    obtain qs0 where qs0: "snd (registered p w service_names new_R tr) = tr @ qs0"
      using registered_trace [of p w service_names new_R tr] by blast
    from True Suc.prems qs0 have "retry_Run n (registered p w service_names) (tr @ qs0) = (Inr (), tr')"
      by (auto split: prod.splits if_splits)
    from Suc.IH [OF this] obtain qs where
      "tr' = (tr @ qs0) @ qs @ [Call_Catalog_Service ''static-client'',
                          Call_Catalog_Service ''static-client-sidecar-proxy'']
       \<and> returned_err w (length ((tr @ qs0) @ qs)) = None
       \<and> length (returned_instances w (length ((tr @ qs0) @ qs))) = 1
       \<and> returned_err w (Suc (length ((tr @ qs0) @ qs))) = None
       \<and> length (returned_instances w (Suc (length ((tr @ qs0) @ qs)))) = 1" by blast
    then have "tr' = tr @ (qs0 @ qs) @ [Call_Catalog_Service ''static-client'',
                          Call_Catalog_Service ''static-client-sidecar-proxy'']
       \<and> returned_err w (length (tr @ (qs0 @ qs))) = None
       \<and> length (returned_instances w (length (tr @ (qs0 @ qs)))) = 1
       \<and> returned_err w (Suc (length (tr @ (qs0 @ qs)))) = None
       \<and> length (returned_instances w (Suc (length (tr @ (qs0 @ qs))))) = 1" by simp
    then show ?thesis by blast
  qed
qed

text \<open>The ways a run of the cleanup test can go.\<close>

lemma cleanup_structure:
  assumes "TestConnectInject_CleanupKilledPods_case p w cfg (s, a) [] = (res, tr)"
  obtains
    (setup_failed) "res \<noteq> Inr ()"
      "set tr \<subseteq> {Call_DefaultContext, Call_NewHelmCluster (helmValues s a) (RandomName w),
         Call_Create, Call_KubectlOptions,
         Call_DeployKustomize (NoCleanupOnFailure cfg) (DebugDirectory cfg)
           ''../fixtures/cases/static-client-inject'',
         Call_SetupConsulClient s}"
  | (not_deleted) r1 tr1 rest where
      "fatal w (Suc (Suc 0)) = None"
      "retry_Run (retries p) (registered p w service_names)
         [Call_DefaultContext, Call_NewHelmCluster (helmValues s a) (RandomName w),
          Call_Create, Call_KubectlOptions,
          Call_DeployKustomize (NoCleanupOnFailure cfg) (DebugDirectory cfg)
            ''../fixtures/cases/static-client-inject'',
          Call_SetupConsulClient s] = (r1, tr1)"
      "res \<noteq> Inr ()" "tr = tr1 @ rest"
      "set rest \<subseteq> {Call_KubectlOptions, Call_KubernetesClient,
           Call_Pods_List (Namespace (returned_options w (length tr1))) ''app=static-client''}"
  | (delete_failed) tr1 pod e where
      "fatal w (Suc (Suc 0)) = None"
      "retry_Run (retries p) (registered p w service_names)
         [Call_DefaultContext, Call_NewHelmCluster (helmValues s a) (RandomName w),
          Call_Create, Call_KubectlOptions,
          Call_DeployKustomize (NoCleanupOnFailure cfg) (DebugDirectory cfg)
            ''../fixtures/cases/static-client-inject'',
          Call_SetupConsulClient s] = (Inr (), tr1)"
      "returned_pods w (Suc (Suc (length tr1))) = [pod]"
      "returned_err w (Suc (Suc (Suc (Suc (length tr1))))) = Some e"
      "res = Inl (FailNow e)"
      "tr = tr1 @ [Call_KubectlOptions, Call_KubernetesClient,
                   Call_Pods_List (Namespace (returned_options w (length tr1))) ''app=static-client'',
                   Call_KubernetesClient,
                   Call_Pods_Delete (Namespace (returned_options w (length tr1))) (Name pod) 0]"
  | (deleted) tr1 pod where
      "fatal w (Suc (Suc 0)) = None"
      "retry_Run (retries p) (registered p w service_names)
         [Call_DefaultContext, Call_NewHelmCluster (helmValues s a) (RandomName w),
          Call_Create, Call_KubectlOptions,
          Call_DeployKustomize (NoCleanupOnFailure cfg) (DebugDirectory cfg)
            ''../fixtures/cases/static-client-inject'',
          Call_SetupConsulClient s] = (Inr (), tr1)"
      "returned_pods w (Suc (Suc (length tr1))) = [pod]"
      "returned_err w (Suc (Suc (Suc (Suc (length tr1))))) = None"
      "retry_Run (retries p) (deregistered p w (Name pod) service_names)
         (tr1 @ [Call_KubectlOptions, Call_KubernetesClient,
                 Call_Pods_List (Namespace (returned_options w (length tr1))) ''app=static-client'',
                 Call_KubernetesClient,
                 Call_Pods_Delete (Namespace (returned_options w (length tr1))) (Name pod) 0])
       = (res, tr)"
proof -
  obtain r1 tr1 where run1: "retry_Run (retries p) (registered p w service_names)
         [Call_DefaultContext, Call_NewHelmCluster (helmValues s a) (RandomName w),
          Call_Create, Call_KubectlOptions,
          Call_DeployKustomize (NoCleanupOnFailure cfg) (DebugDirectory cfg)
            ''../fixtures/cases/static-client-inject'',
          Call_SetupConsulClient s] = (r1, tr1)"
    by (cases "retry_Run (retries p) (registered p w service_names)
         [Call_DefaultContext, Call_NewHelmCluster (helmValues s a) (RandomName w),
          Call_Create, Call_KubectlOptions,
          Call_DeployKustomize (NoCleanupOnFailure cfg) (DebugDirectory cfg)
            ''../fixtures/cases/static-client-inject'',
          Call_SetupConsulClient s]")
  show ?thesis
    using assms run1 that
    unfolding TestConnectInject_CleanupKilledPods_case_def
    by (auto simp: bind_def call_def ctx_KubectlOptions_def Pods_List_def Pods_Delete_def
        require_NoError_def require_Len_def Let_def length_Suc_conv
        split: option.splits sum.splits prod.splits if_splits)
qed

lemma inject_order:
  assumes "TestConnectInject_case w c [] = (res, tr)"
    and "tr = pre @ Call_TestInstallation h # post"
  shows "pre = [Call_DefaultContext, Call_Install h]
       \<and> fatal w (Suc 0) = None \<and> returned_err w (Suc 0) = None"
  using assms unfolding TestConnectInject_case_def
  by (auto simp: bind_def call_def call_err_def require_NoError_def Let_def
        Cons_eq_append_conv
        split: option.splits sum.splits prod.splits if_splits)

lemma upgrade_order:
  assumes "TestConnectInjectOnUpgrade_case w c [] = (res, tr)"
    and "tr = pre @ Call_TestInstallation h # post"
  shows "\<exists>pre0. (pre = pre0 @ [Call_Install h] \<or> pre = pre0 @ [Call_Upgrade h])
       \<and> fatal w (length pre0) = None \<and> returned_err w (length pre0) = None"
  using assms unfolding TestConnectInjectOnUpgrade_case_def
  by (auto simp: bind_def call_def call_err_def require_NoError_def Let_def
        Cons_eq_append_conv
        split: option.splits sum.splits prod.splits if_splits)


lemma cleanup_delete:
  assumes run: "TestConnectInject_CleanupKilledPods_case p w cfg (s, a) [] = (res, tr)"
    and tr: "tr = pre @ Call_Pods_Delete ns name g # post"
  shows "\<exists>pre0 pod.
      pre = pre0 @ [Call_Catalog_Service ''static-client'',
                    Call_Catalog_Service ''static-client-sidecar-proxy'',
                    Call_KubectlOptions, Call_KubernetesClient,
                    Call_Pods_List ns ''app=static-client'', Call_KubernetesClient]
      \<and> returned_err w (length pre0) = None
      \<and> length (returned_instances w (length pre0)) = 1
      \<and> returned_err w (Suc (length pre0)) = None
      \<and> length (returned_instances w (Suc (length pre0))) = 1
      \<and> returned_pods w (length pre0 + 4) = [pod] \<and> name = Name pod \<and> g = 0
      \<and> (case returned_err w (length pre) of
            Some e \<Rightarrow> res = Inl (FailNow e) \<and> post = []
          | None \<Rightarrow> retry_Run (retries p) (deregistered p w name service_names)
                      (pre @ [Call_Pods_Delete ns name g]) = (res, tr))"
proof -
  let ?D = "\<lambda>e. \<exists>ns name g. e = Call_Pods_Delete ns name g"
  let ?prefix = "[Call_DefaultContext, Call_NewHelmCluster (helmValues s a) (RandomName w),
          Call_Create, Call_KubectlOptions,
          Call_DeployKustomize (NoCleanupOnFailure cfg) (DebugDirectory cfg)
            ''../fixtures/cases/static-client-inject'',
          Call_SetupConsulClient s]"
  have D: "?D (Call_Pods_Delete ns name g)" by blast
  have in_tr: "Call_Pods_Delete ns name g \<in> set tr" using tr by simp
  have run1_trace: "\<forall>e\<in>set tr1. \<not> ?D e"
    if "retry_Run (retries p) (registered p w service_names) ?prefix = (r1, tr1)" for r1 tr1
  proof -
    obtain qs where "snd (retry_Run (retries p) (registered p w service_names) ?prefix) = ?prefix @ qs"
      "\<forall>e\<in>set qs. \<exists>name. e = Call_Catalog_Service name"
      using retry_Run_trace [of "registered p w service_names" "retries p" ?prefix, OF registered_trace]
      by blast
    with that show ?thesis by auto
  qed
  from run show ?thesis
  proof (cases rule: cleanup_structure)
    case setup_failed
    with in_tr show ?thesis by auto
  next
    case (not_deleted r1 tr1 rest)
    with in_tr run1_trace [OF not_deleted(2)] show ?thesis by auto
  next
    case (delete_failed tr1 pod e)
    let ?mid = "[Call_KubectlOptions, Call_KubernetesClient,
                 Call_Pods_List (Namespace (returned_options w (length tr1))) ''app=static-client'',
                 Call_KubernetesClient]"
    let ?del = "Call_Pods_Delete (Namespace (returned_options w (length tr1))) (Name pod) 0"
    have eq: "(tr1 @ ?mid) @ ?del # [] = pre @ Call_Pods_Delete ns name g # post"
      using delete_failed(6) tr by simp
    have "\<forall>e\<in>set (tr1 @ ?mid). \<not> ?D e"
      using run1_trace [OF delete_failed(2)] by auto
    from unique_split [of "tr1 @ ?mid" ?del "[]" pre "Call_Pods_Delete ns name g" post ?D, OF eq D this]
    have split: "pre = tr1 @ ?mid" "Call_Pods_Delete ns name g = ?del" "post = []" by auto
    from retry_Run_registered_confirmed [OF delete_failed(2)] obtain qs where
      qs: "tr1 = ?prefix @ qs @ [Call_Catalog_Service ''static-client'',
                          Call_Catalog_Service ''static-client-sidecar-proxy'']"
       "returned_err w (length (?prefix @ qs)) = None"
       "length (returned_instances w (length (?prefix @ qs))) = 1"
       "returned_err w (Suc (length (?prefix @ qs))) = None"
       "length (returned_instances w (Suc (length (?prefix @ qs)))) = 1" by blast
    have "pre = (?prefix @ qs) @ [Call_Catalog_Service ''static-client'',
                    Call_Catalog_Service ''static-client-sidecar-proxy'',
                    Call_KubectlOptions, Call_KubernetesClient,
                    Call_Pods_List ns ''app=static-client'', Call_KubernetesClient]
      \<and> returned_err w (length (?prefix @ qs)) = None
      \<and> length (returned_instances w (length (?prefix @ qs))) = 1
      \<and> returned_err w (Suc (length (?prefix @ qs))) = None
      \<and> length (returned_instances w (Suc (length (?prefix @ qs)))) = 1
      \<and> returned_pods w (length (?prefix @ qs) + 4) = [pod] \<and> name = Name pod \<and> g = 0
      \<and> (case returned_err w (length pre) of
            Some e \<Rightarrow> res = Inl (FailNow e) \<and> post = []
          | None \<Rightarrow> retry_Run (retries p) (deregistered p w name service_names)
                      (pre @ [Call_Pods_Delete ns name g]) = (res, tr))"
      using split qs delete_failed(3,4,5) by (simp add: numeral_eq_Suc)
    then show ?thesis by blast
  next
    case (deleted tr1 pod)
    let ?mid = "[Call_KubectlOptions, Call_KubernetesClient,
                 Call_Pods_List (Namespace (returned_options w (length tr1))) ''app=static-client'',
                 Call_KubernetesClient]"
    let ?del = "Call_Pods_Delete (Namespace (returned_options w (length tr1))) (Name pod) 0"
    obtain qs2 where qs2: "tr = (tr1 @ ?mid @ [?del]) @ qs2"
      "\<forall>e\<in>set qs2. \<exists>name. e = Call_Catalog_Service name"
      using retry_Run_trace [of "deregistered p w (Name pod) service_names" "retries p"
               "tr1 @ ?mid @ [?del]", OF deregistered_trace] deleted(5)
      by auto
    have eq: "(tr1 @ ?mid) @ ?del # qs2 = pre @ Call_Pods_Delete ns name g # post"
      using qs2(1) tr by simp
    have 1: "\<forall>e\<in>set (tr1 @ ?mid). \<not> ?D e"
      using run1_trace [OF deleted(2)] by auto
    have 2: "\<forall>e\<in>set qs2. \<not> ?D e" using qs2(2) by auto
    from unique_split [of "tr1 @ ?mid" ?del qs2 pre "Call_Pods_Delete ns name g" post ?D, OF eq D 1 2]
    have split: "pre = tr1 @ ?mid" "Call_Pods_Delete ns name g = ?del" "post = qs2" by auto
    from retry_Run_registered_confirmed [OF deleted(2)] obtain qs where
      qs: "tr1 = ?prefix @ qs @ [Call_Catalog_Service ''static-client'',
                          Call_Catalog_Service ''static-client-sidecar-proxy'']"
       "returned_err w (length (?prefix @ qs)) = None"
       "length (returned_instances w (length (?prefix @ qs))) = 1"
       "returned_err w (Suc (length (?prefix @ qs))) = None"
       "length (returned_instances w (Suc (length (?prefix @ qs)))) = 1" by blast
    have "pre = (?prefix @ qs) @ [Call_Catalog_Service ''static-client'',
                    Call_Catalog_Service ''static-client-sidecar-proxy'',
                    Call_KubectlOptions, Call_KubernetesClient,
                    Call_Pods_List ns ''app=static-client'', Call_KubernetesClient]
      \<and> returned_err w (length (?prefix @ qs)) = None
      \<and> length (returned_instances w (length (?prefix @ qs))) = 1
      \<and> returned_err w (Suc (length (?prefix @ qs))) = None
      \<and> length (returned_instances w (Suc (length (?prefix @ qs)))) = 1
      \<and> returned_pods w (length (?prefix @ qs) + 4) = [pod] \<and> name = Name pod \<and> g = 0
      \<and> (case returned_err w (length pre) of
            Some e \<Rightarrow> res = Inl (FailNow e) \<and> post = []
          | None \<Rightarrow> retry_Run (retries p) (deregistered p w name service_names)
                      (pre @ [Call_Pods_Delete ns name g]) = (res, tr))"
      using split qs deleted(3,4,5) by (simp add: numeral_eq_Suc)
    then show ?thesis by blast
  qed
qed

lemma cleanup_query_after_Create:
  assumes run: "TestConnectInject_CleanupKilledPods_case p w cfg (s, a) [] = (res, tr)"
    and tr: "tr = pre @ Call_Catalog_Service name # post"
  shows "\<exists>pre1. pre = [Call_DefaultContext,
                        Call_NewHelmCluster (helmValues s a) (RandomName w), Call_Create] @ pre1
           \<and> fatal w 2 = None"
proof -
  let ?prefix = "[Call_DefaultContext, Call_NewHelmCluster (helmValues s a) (RandomName w),
          Call_Create, Call_KubectlOptions,
          Call_DeployKustomize (NoCleanupOnFailure cfg) (DebugDirectory cfg)
            ''../fixtures/cases/static-client-inject'',
          Call_SetupConsulClient s]"
  let ?Q = "\<lambda>e. \<exists>name. e = Call_Catalog_Service name"
  have in_tr: "Call_Catalog_Service name \<in> set tr" using tr by simp
  have starts: "\<exists>pre1. pre = [Call_DefaultContext,
                        Call_NewHelmCluster (helmValues s a) (RandomName w), Call_Create] @ pre1"
    if "tr = ?prefix @ rest" for rest
  proof -
    from that tr have "?prefix @ rest = pre @ Call_Catalog_Service name # post" by simp
    then show ?thesis
      by (auto simp: append_eq_append_conv2 Cons_eq_append_conv append_eq_Cons_conv)
  qed
  have run1_trace: "\<exists>qs. tr1 = ?prefix @ qs"
    if "retry_Run (retries p) (registered p w service_names) ?prefix = (r1, tr1)" for r1 tr1
    using retry_Run_trace [of "registered p w service_names" "retries p" ?prefix, OF registered_trace]
      that by auto
  from run show ?thesis
  proof (cases rule: cleanup_structure)
    case setup_failed
    with in_tr show ?thesis by auto
  next
    case (not_deleted r1 tr1 rest)
    from run1_trace [OF not_deleted(2)] obtain qs where "tr1 = ?prefix @ qs" by blast
    with not_deleted(4) have "tr = ?prefix @ (qs @ rest)" by simp
    from starts [OF this] not_deleted(1) show ?thesis by (simp add: numeral_2_eq_2)
  next
    case (delete_failed tr1 pod e)
    from run1_trace [OF delete_failed(2)] obtain qs where "tr1 = ?prefix @ qs" by blast
    with delete_failed(6) have "tr = ?prefix @ (qs @ [Call_KubectlOptions, Call_KubernetesClient,
                   Call_Pods_List (Namespace (returned_options w (length tr1))) ''app=static-client'',
                   Call_KubernetesClient,
                   Call_Pods_Delete (Namespace (returned_options w (length tr1))) (Name pod) 0])"
      by simp
    from starts [OF this] delete_failed(1) show ?thesis by (simp add: numeral_2_eq_2)
  next
    case (deleted tr1 pod)
    from run1_trace [OF deleted(2)] obtain qs where qs: "tr1 = ?prefix @ qs" by blast
    obtain qs2 where "tr = (tr1 @ [Call_KubectlOptions, Call_KubernetesClient,
                 Call_Pods_List (Namespace (returned_options w (length tr1))) ''app=static-client'',
                 Call_KubernetesClient,
                 Call_Pods_Delete (Namespace (returned_options w (length tr1))) (Name pod) 0]) @ qs2"
      using retry_Run_trace [of "deregistered p w (Name pod) service_names" "retries p"
               "tr1 @ [Call_KubectlOptions, Call_KubernetesClient,
                 Call_Pods_List (Namespace (returned_options w (length tr1))) ''app=static-client'',
                 Call_KubernetesClient,
                 Call_Pods_Delete (Namespace (returned_options w (length tr1))) (Name pod) 0]",
               OF deregistered_trace] deleted(5)
      by auto
    with qs have "tr = ?prefix @ (qs @ [Call_KubectlOptions, Call_KubernetesClient,
                 Call_Pods_List (Namespace (returned_options w (length tr1))) ''app=static-client'',
                 Call_KubernetesClient,
                 Call_Pods_Delete (Namespace (returned_options w (length tr1))) (Name pod) 0] @ qs2)"
      by simp
    from starts [OF this] deleted(1) show ?thesis by (simp add: numeral_2_eq_2)
  qed
qed

lemma cleanup_NewHelmCluster:
  assumes run: "TestConnectInject_CleanupKilledPods_case p w cfg (s, a) [] = (res, tr)"
    and tr: "Call_NewHelmCluster values rn \<in> set tr"
  shows "values = helmValues s a"
proof -
  let ?prefix = "[Call_DefaultContext, Call_NewHelmCluster (helmValues s a) (RandomName w),
          Call_Create, Call_KubectlOptions,
          Call_DeployKustomize (NoCleanupOnFailure cfg) (DebugDirectory cfg)
            ''../fixtures/cases/static-client-inject'',
          Call_SetupConsulClient s]"
  have run1_trace: "\<exists>qs. tr1 = ?prefix @ qs \<and> (\<forall>e\<in>set qs. \<exists>name. e = Call_Catalog_Service name)"
    if "retry_Run (retries p) (registered p w service_names) ?prefix = (r1, tr1)" for r1 tr1
    using retry_Run_trace [of "registered p w service_names" "retries p" ?prefix, OF registered_trace]
      that by auto
  from run show ?thesis
  proof (cases rule: cleanup_structure)
    case setup_failed
    with tr show ?thesis by auto
  next
    case (not_deleted r1 tr1 rest)
    from run1_trace [OF not_deleted(2)] not_deleted(4,5) tr show ?thesis by auto
  next
    case (delete_failed tr1 pod e)
    from run1_trace [OF delete_failed(2)] delete_failed(6) tr show ?thesis by auto
  next
    case (deleted tr1 pod)
    obtain qs2 where "tr = (tr1 @ [Call_KubectlOptions, Call_KubernetesClient,
                 Call_Pods_List (Namespace (returned_options w (length tr1))) ''app=static-client'',
                 Call_KubernetesClient,
                 Call_Pods_Delete (Namespace (returned_options w (length tr1))) (Name pod) 0]) @ qs2"
       "\<forall>e\<in>set qs2. \<exists>name. e = Call_Catalog_Service name"
      using retry_Run_trace [of "deregistered p w (Name pod) service_names" "retries p"
               "tr1 @ [Call_KubectlOptions, Call_KubernetesClient,
                 Call_Pods_List (Namespace (returned_options w (length tr1))) ''app=static-client'',
                 Call_KubernetesClient,
                 Call_Pods_Delete (Namespace (returned_options w (length tr1))) (Name pod) 0]",
               OF deregistered_trace] deleted(5)
      by auto
    with run1_trace [OF deleted(2)] tr show ?thesis by auto
  qed
qed

subsection \<open>C6: order of installation, verification and deletion\<close>

text \<open>
  C6: in a run of a test case, a call of \<open>TestInstallation\<close> comes right after the
  \<open>Install\<close> or \<open>Upgrade\<close> call of the same helper, which returned no error and did not
  fail the test; in the cleanup test a lookup of the registration check comes after
  \<open>Create\<close> returned, and the pod deletion comes after an attempt of the poller in which
  both lookups returned without error exactly one instance.
\<close>

theorem verification_after_install:
  "(TestConnectInject_case w c [] = (res, tr) \<and> tr = pre @ Call_TestInstallation h # post \<longrightarrow>
      pre = [Call_DefaultContext, Call_Install h]
      \<and> fatal w 1 = None \<and> returned_err w 1 = None)
   \<and> (TestConnectInjectOnUpgrade_case w u [] = (res, tr)
        \<and> tr = pre @ Call_TestInstallation h # post \<longrightarrow>
      (\<exists>pre0. (pre = pre0 @ [Call_Install h] \<or> pre = pre0 @ [Call_Upgrade h])
         \<and> fatal w (length pre0) = None \<and> returned_err w (length pre0) = None))
   \<and> (TestConnectInject_CleanupKilledPods_case p w cfg (s, a) [] = (res, tr)
        \<and> tr = pre @ Call_Catalog_Service name # post \<longrightarrow>
      (\<exists>pre1. pre = [Call_DefaultContext,
                      Call_NewHelmCluster (helmValues s a) (RandomName w), Call_Create] @ pre1
         \<and> fatal w 2 = None))
   \<and> (TestConnectInject_CleanupKilledPods_case p w cfg (s, a) [] = (res, tr)
        \<and> tr = pre @ Call_Pods_Delete ns name g # post \<longrightarrow>
      (\<exists>pre0 pre1.
         pre = pre0 @ [Call_Catalog_Service ''static-client'',
                       Call_Catalog_Service ''static-client-sidecar-proxy''] @ pre1
         \<and> returned_err w (length pre0) = None
         \<and> length (returned_instances w (length pre0)) = 1
         \<and> returned_err w (Suc (length pre0)) = None
         \<and> length (returned_instances w (Suc (length pre0))) = 1))"
proof (intro conjI impI)
  assume "TestConnectInject_case w c [] = (res, tr) \<and> tr = pre @ Call_TestInstallation h # post"
  then have "pre = [Call_DefaultContext, Call_Install h]
       \<and> fatal w (Suc 0) = None \<and> returned_err w (Suc 0) = None"
    using inject_order [of w c res tr pre h post] by blast
  then show "pre = [Call_DefaultContext, Call_Install h]"
    "fatal w 1 = None" "returned_err w 1 = None" by simp_all
next
  assume "TestConnectInjectOnUpgrade_case w u [] = (res, tr)
        \<and> tr = pre @ Call_TestInstallation h # post"
  then show "\<exists>pre0. (pre = pre0 @ [Call_Install h] \<or> pre = pre0 @ [Call_Upgrade h])
         \<and> fatal w (length pre0) = None \<and> returned_err w (length pre0) = None"
    using upgrade_order [of w u res tr pre h post] by blast
next
  assume "TestConnectInject_CleanupKilledPods_case p w cfg (s, a) [] = (res, tr)
        \<and> tr = pre @ Call_Catalog_Service name # post"
  then show "\<exists>pre1. pre = [Call_DefaultContext,
                      Call_NewHelmCluster (helmValues s a) (RandomName w), Call_Create] @ pre1
         \<and> fatal w 2 = None"
    using cleanup_query_after_Create [of p w cfg s a res tr pre name post] by blast
next
  assume "TestConnectInject_CleanupKilledPods_case p w cfg (s, a) [] = (res, tr)
        \<and> tr = pre @ Call_Pods_Delete ns name g # post"
  then obtain pre0 where
    "pre = pre0 @ [Call_Catalog_Service ''static-client'',
                    Call_Catalog_Service ''static-client-sidecar-proxy'',
                    Call_KubectlOptions, Call_KubernetesClient,
                    Call_Pods_List ns ''app=static-client'', Call_KubernetesClient]"
    "returned_err w (length pre0) = None"
    "length (returned_instances w (length pre0)) = 1"
    "returned_err w (Suc (length pre0)) = None"
    "length (returned_instances w (Suc (length pre0))) = 1"
    using cleanup_delete [of p w cfg s a res tr pre ns name g post] by blast
  then have "pre = pre0 @ [Call_Catalog_Service ''static-client'',
                       Call_Catalog_Service ''static-client-sidecar-proxy'']
                 @ [Call_KubectlOptions, Call_KubernetesClient,
                    Call_Pods_List ns ''app=static-client'', Call_KubernetesClient]
         \<and> returned_err w (length pre0) = None
         \<and> length (returned_instances w (length pre0)) = 1
         \<and> returned_err w (Suc (length pre0)) = None
         \<and> length (returned_instances w (Suc (length pre0))) = 1" by simp
  then show "\<exists>pre0 pre1.
         pre = pre0 @ [Call_Catalog_Service ''static-client'',
                       Call_Catalog_Service ''static-client-sidecar-proxy''] @ pre1
         \<and> returned_err w (length pre0) = None
         \<and> length (returned_instances w (length pre0)) = 1
         \<and> returned_err w (Suc (length pre0)) = None
         \<and> length (returned_instances w (Suc (length pre0))) = 1" by blast
qed

theorem verification_after_install_witness:
  "TestConnectInject_case steady helm_case []
     = (Inr (),
        [Call_DefaultContext,
         Call_Install \<lparr>ClusterGenerator = NewHelmCluster, Secure = True, AutoEncrypt = False,
                       ReleaseName = ''test-abc'', AdditionalHelmValues = Map.empty\<rparr>]
        @ Call_TestInstallation \<lparr>ClusterGenerator = NewHelmCluster, Secure = True,
             AutoEncrypt = False, ReleaseName = ''test-abc'', AdditionalHelmValues = Map.empty\<rparr>
        # [])
   \<and> fatal steady 1 = None \<and> returned_err steady 1 = None
   \<and> TestConnectInjectOnUpgrade_case steady helm_upgrade_case []
     = (Inr (),
        [Call_DefaultContext,
         Call_Install \<lparr>ClusterGenerator = NewHelmCluster, Secure = False, AutoEncrypt = False,
                       ReleaseName = ''test-abc'', AdditionalHelmValues = Map.empty\<rparr>,
         Call_TestInstallation \<lparr>ClusterGenerator = NewHelmCluster, Secure = False,
             AutoEncrypt = False, ReleaseName = ''test-abc'', AdditionalHelmValues = Map.empty\<rparr>,
         Call_Upgrade \<lparr>ClusterGenerator = NewHelmCluster, Secure = False, AutoEncrypt = False,
                       ReleaseName = ''test-abc'', AdditionalHelmValues = Map.empty\<rparr>]
        @ Call_TestInstallation \<lparr>ClusterGenerator = NewHelmCluster, Secure = False,
             AutoEncrypt = False, ReleaseName = ''test-abc'', AdditionalHelmValues = Map.empty\<rparr>
        # [])
   \<and> TestConnectInject_CleanupKilledPods_case one_attempt steady multi_cluster_config (True, True) []
     = (Inr (),
        [Call_DefaultContext, Call_NewHelmCluster (helmValues True True) ''test-abc'', Call_Create,
         Call_KubectlOptions,
         Call_DeployKustomize False [] ''../fixtures/cases/static-client-inject'',
         Call_SetupConsulClient True, Call_Catalog_Service ''static-client'',
         Call_Catalog_Service ''static-client-sidecar-proxy'',
         Call_KubectlOptions, Call_KubernetesClient,
         Call_Pods_List ''default'' ''app=static-client'', Call_KubernetesClient]
        @ Call_Pods_Delete ''default'' ''static-client-7f9'' 0
        # [Call_Catalog_Service ''static-client'',
           Call_Catalog_Service ''static-client-sidecar-proxy''])
   \<and> fatal steady 2 = None
   \<and> returned_err steady 6 = None \<and> length (returned_instances steady 6) = 1
   \<and> returned_err steady 7 = None \<and> length (returned_instances steady 7) = 1"
  using verification_after_install [where w = steady and c = helm_case and res = "Inr ()"
      and h = "\<lparr>ClusterGenerator = NewHelmCluster, Secure = True, AutoEncrypt = False,
                       ReleaseName = ''test-abc'', AdditionalHelmValues = Map.empty\<rparr>"
      and pre = "[Call_DefaultContext,
         Call_Install \<lparr>ClusterGenerator = NewHelmCluster, Secure = True, AutoEncrypt = False,
                       ReleaseName = ''test-abc'', AdditionalHelmValues = Map.empty\<rparr>]"
      and post = "[]"
      and tr = "[Call_DefaultContext,
         Call_Install \<lparr>ClusterGenerator = NewHelmCluster, Secure = True, AutoEncrypt = False,
                       ReleaseName = ''test-abc'', AdditionalHelmValues = Map.empty\<rparr>,
         Call_TestInstallation \<lparr>ClusterGenerator = NewHelmCluster, Secure = True,
             AutoEncrypt = False, ReleaseName = ''test-abc'', AdditionalHelmValues = Map.empty\<rparr>]"]
    verification_after_install [where w = steady and u = helm_upgrade_case and res = "Inr ()"
      and h = "\<lparr>ClusterGenerator = NewHelmCluster, Secure = False, AutoEncrypt = False,
                       ReleaseName = ''test-abc'', AdditionalHelmValues = Map.empty\<rparr>"
      and pre = "[Call_DefaultContext,
         Call_Install \<lparr>ClusterGenerator = NewHelmCluster, Secure = False, AutoEncrypt = False,
                       ReleaseName = ''test-abc'', AdditionalHelmValues = Map.empty\<rparr>,
         Call_TestInstallation \<lparr>ClusterGenerator = NewHelmCluster, Secure = False,
             AutoEncrypt = False, ReleaseName = ''test-abc'', AdditionalHelmValues = Map.empty\<rparr>,
         Call_Upgrade \<lparr>ClusterGenerator = NewHelmCluster, Secure = False, AutoEncrypt = False,
                       ReleaseName = ''test-abc'', AdditionalHelmValues = Map.empty\<rparr>]"
      and post = "[]"
      and tr = "[Call_DefaultContext,
         Call_Install \<lparr>ClusterGenerator = NewHelmCluster, Secure = False, AutoEncrypt = False,
                       ReleaseName = ''test-abc'', AdditionalHelmValues = Map.empty\<rparr>,
         Call_TestInstallation \<lparr>ClusterGenerator = NewHelmCluster, Secure = False,
             AutoEncrypt = False, ReleaseName = ''test-abc'', AdditionalHelmValues = Map.empty\<rparr>,
         Call_Upgrade \<lparr>ClusterGenerator = NewHelmCluster, Secure = False, AutoEncrypt = False,
                       ReleaseName = ''test-abc'', AdditionalHelmValues = Map.empty\<rparr>,
         Call_TestInstallation \<lparr>ClusterGenerator = NewHelmCluster, Secure = False,
             AutoEncrypt = False, ReleaseName = ''test-abc'', AdditionalHelmValues = Map.empty\<rparr>]"]
    verification_after_install [where w = steady and p = one_attempt
      and cfg = multi_cluster_config and s = True and a = True and res = "Inr ()"
      and ns = "''default''" and name = "''static-client-7f9''" and g = 0
      and pre = "[Call_DefaultContext, Call_NewHelmCluster (helmValues True True) ''test-abc'', Call_Create,
         Call_KubectlOptions,
         Call_DeployKustomize False [] ''../fixtures/cases/static-client-inject'',
         Call_SetupConsulClient True, Call_Catalog_Service ''static-client'',
         Call_Catalog_Service ''static-client-sidecar-proxy'',
         Call_KubectlOptions, Call_KubernetesClient,
         Call_Pods_List ''default'' ''app=static-client'', Call_KubernetesClient]"
      and post = "[Call_Catalog_Service ''static-client'',
           Call_Catalog_Service ''static-client-sidecar-proxy'']"
      and tr = "[Call_DefaultContext, Call_NewHelmCluster (helmValues True True) ''test-abc'', Call_Create,
         Call_KubectlOptions,
         Call_DeployKustomize False [] ''../fixtures/cases/static-client-inject'',
         Call_SetupConsulClient True, Call_Catalog_Service ''static-client'',
         Call_Catalog_Service ''static-client-sidecar-proxy'',
         Call_KubectlOptions, Call_KubernetesClient,
         Call_Pods_List ''default'' ''app=static-client'', Call_KubernetesClient,
         Call_Pods_Delete ''default'' ''static-client-7f9'' 0,
         Call_Catalog_Service ''static-client'',
         Call_Catalog_Service ''static-client-sidecar-proxy'']"]
    verification_after_install [where w = steady and p = one_attempt
      and cfg = multi_cluster_config and s = True and a = True and res = "Inr ()"
      and name = "''static-client''"
      and pre = "[Call_DefaultContext, Call_NewHelmCluster (helmValues True True) ''test-abc'', Call_Create,
         Call_KubectlOptions,
         Call_DeployKustomize False [] ''../fixtures/cases/static-client-inject'',
         Call_SetupConsulClient True]"
      and post = "[Call_Catalog_Service ''static-client-sidecar-proxy'',
         Call_KubectlOptions, Call_KubernetesClient,
         Call_Pods_List ''default'' ''app=static-client'', Call_KubernetesClient,
         Call_Pods_Delete ''default'' ''static-client-7f9'' 0,
         Call_Catalog_Service ''static-client'',
         Call_Catalog_Service ''static-client-sidecar-proxy'']"
      and tr = "[Call_DefaultContext, Call_NewHelmCluster (helmValues True True) ''test-abc'', Call_Create,
         Call_KubectlOptions,
         Call_DeployKustomize False [] ''../fixtures/cases/static-client-inject'',
         Call_SetupConsulClient True, Call_Catalog_Service ''static-client'',
         Call_Catalog_Service ''static-client-sidecar-proxy'',
         Call_KubectlOptions, Call_KubernetesClient,
         Call_Pods_List ''default'' ''app=static-client'', Call_KubernetesClient,
         Call_Pods_Delete ''default'' ''static-client-7f9'' 0,
         Call_Catalog_Service ''static-client'',
         Call_Catalog_Service ''static-client-sidecar-proxy'']"]
  by (simp add: test_defs steady_def one_attempt_def multi_cluster_config_def helm_case_def
        helm_upgrade_case_def Let_def)

subsection \<open>C7: a lookup error is a failure of the attempt\<close>

text \<open>
  C7: a lookup error in an attempt of either check marks that attempt as failed; with
  attempts left the poller runs the next attempt instead of failing the test; the poller
  fails the test if and only if every attempt of the budget recorded a failure.
\<close>

theorem lookup_error_is_retried:
  assumes "returned_err w (length tr) \<noteq> None \<or> returned_err w (Suc (length tr)) \<noteq> None"
  shows "failed (fst (registered p w service_names new_R tr))
     \<and> failed (fst (deregistered p w podName service_names new_R tr))
     \<and> retry_Run (Suc n) (registered p w service_names) tr
         = retry_Run n (registered p w service_names)
             (snd (registered p w service_names new_R tr))
     \<and> retry_Run (Suc n) (deregistered p w podName service_names) tr
         = retry_Run n (deregistered p w podName service_names)
             (snd (deregistered p w podName service_names new_R tr))
     \<and> (fst (retry_Run n f tr) \<noteq> Inr ()
          \<longleftrightarrow> (\<forall>i\<le>n. failed (fst (f new_R (attempt_start i f tr)))))"
proof -
  have 1: "failed (fst (registered p w service_names new_R tr))"
    using assms registered_passes [of p w tr] by auto
  have 2: "failed (fst (deregistered p w podName service_names new_R tr))"
    using assms deregistered_passes [of p w podName tr] by auto
  have 3: "retry_Run (Suc n) (registered p w service_names) tr
         = retry_Run n (registered p w service_names)
             (snd (registered p w service_names new_R tr))"
    using 1 by (cases "registered p w service_names new_R tr") simp
  have 4: "retry_Run (Suc n) (deregistered p w podName service_names) tr
         = retry_Run n (deregistered p w podName service_names)
             (snd (deregistered p w podName service_names new_R tr))"
    using 2 by (cases "deregistered p w podName service_names new_R tr") simp
  have 5: "fst (retry_Run n f tr) \<noteq> Inr ()
          \<longleftrightarrow> (\<forall>i\<le>n. failed (fst (f new_R (attempt_start i f tr))))"
    using retry_Run_fails_iff [of n f tr] by blast
  from 1 2 3 4 5 show ?thesis by blast
qed

theorem lookup_error_is_retried_witness:
  "returned_err first_lookup_fails (length ([] :: event list)) \<noteq> None
   \<and> failed (fst (registered two_attempts first_lookup_fails service_names new_R []))
   \<and> retry_Run (Suc 0) (registered two_attempts first_lookup_fails service_names) []
       = (Inr (), [Call_Catalog_Service ''static-client'', Call_Catalog_Service ''static-client'',
                   Call_Catalog_Service ''static-client-sidecar-proxy''])"
  using lookup_error_is_retried [of first_lookup_fails "[]" two_attempts "''static-client-7f9''" 0
          "registered two_attempts first_lookup_fails service_names"]
  by (simp add: test_defs first_lookup_fails_def two_attempts_def)

subsection \<open>C8: the overrides given to the cluster generator\<close>

text \<open>
  C8: for all values of \<open>secure\<close> and \<open>autoEncrypt\<close> the map maps
  \<open>connectInject.enabled\<close> to \<open>true\<close>, \<open>global.tls.enabled\<close> and
  \<open>global.acls.manageSystemACLs\<close> to the string form of \<open>secure\<close>, and
  \<open>global.tls.enableAutoEncrypt\<close> to the string form of \<open>autoEncrypt\<close>; it is the map
  every call of the generator in the run is given.
\<close>

theorem helmValues_overrides:
  "helmValues s a ''connectInject.enabled'' = Some ''true''
   \<and> helmValues s a ''global.tls.enabled'' = Some (if s then ''true'' else ''false'')
   \<and> helmValues s a ''global.acls.manageSystemACLs'' = Some (if s then ''true'' else ''false'')
   \<and> helmValues s a ''global.tls.enableAutoEncrypt'' = Some (if a then ''true'' else ''false'')
   \<and> (TestConnectInject_CleanupKilledPods_case p w cfg (s, a) [] = (res, tr)
        \<and> Call_NewHelmCluster values rn \<in> set tr \<longrightarrow> values = helmValues s a)"
  using cleanup_NewHelmCluster [of p w cfg s a res tr "values" rn]
  by (simp add: helmValues_def FormatBool_def)

theorem helmValues_overrides_witness:
  "TestConnectInject_CleanupKilledPods_case one_attempt steady multi_cluster_config (True, False) []
     = (Inr (),
        [Call_DefaultContext, Call_NewHelmCluster (helmValues True False) ''test-abc'', Call_Create,
         Call_KubectlOptions,
         Call_DeployKustomize False [] ''../fixtures/cases/static-client-inject'',
         Call_SetupConsulClient True, Call_Catalog_Service ''static-client'',
         Call_Catalog_Service ''static-client-sidecar-proxy'',
         Call_KubectlOptions, Call_KubernetesClient,
         Call_Pods_List ''default'' ''app=static-client'', Call_KubernetesClient,
         Call_Pods_Delete ''default'' ''static-client-7f9'' 0,
         Call_Catalog_Service ''static-client'',
         Call_Catalog_Service ''static-client-sidecar-proxy''])
   \<and> helmValues True False ''global.tls.enabled'' = Some ''true''
   \<and> helmValues True False ''global.acls.manageSystemACLs'' = Some ''true''
   \<and> helmValues True False ''global.tls.enableAutoEncrypt'' = Some ''false''"
  using helmValues_overrides [of True False one_attempt steady multi_cluster_config "Inr ()"
     "[Call_DefaultContext, Call_NewHelmCluster (helmValues True False) ''test-abc'', Call_Create,
         Call_KubectlOptions,
         Call_DeployKustomize False [] ''../fixtures/cases/static-client-inject'',
         Call_SetupConsulClient True, Call_Catalog_Service ''static-client'',
         Call_Catalog_Service ''static-client-sidecar-proxy'',
         Call_KubectlOptions, Call_KubernetesClient,
         Call_Pods_List ''default'' ''app=static-client'', Call_KubernetesClient,
         Call_Pods_Delete ''default'' ''static-client-7f9'' 0,
         Call_Catalog_Service ''static-client'',
         Call_Catalog_Service ''static-client-sidecar-proxy'']"
     "helmValues True False" "''test-abc''"]
  by (simp add: test_defs steady_def one_attempt_def multi_cluster_config_def Let_def)

subsection \<open>C9: the killed pod is deregistered\<close>

text \<open>
  C9 as stated: the deregistration check succeeds exactly when no instance of either
  service has a \<open>ServiceID\<close> containing the pod's name. It fails when a lookup returns an
  error: with one attempt and every lookup after the deletion failing, the test fails
  although no instance at all is returned.
\<close>

theorem deregistration_check_counterexample:
  "TestConnectInject_CleanupKilledPods_case one_attempt lookup_fails_after_delete
       multi_cluster_config (False, False) []
     = (Inl (FailNow ''connection refused''),
        [Call_DefaultContext, Call_NewHelmCluster (helmValues False False) ''test-abc'', Call_Create,
         Call_KubectlOptions,
         Call_DeployKustomize False [] ''../fixtures/cases/static-client-inject'',
         Call_SetupConsulClient False, Call_Catalog_Service ''static-client'',
         Call_Catalog_Service ''static-client-sidecar-proxy'',
         Call_KubectlOptions, Call_KubernetesClient,
         Call_Pods_List ''default'' ''app=static-client'', Call_KubernetesClient,
         Call_Pods_Delete ''default'' ''static-client-7f9'' 0,
         Call_Catalog_Service ''static-client''])
   \<and> returned_instances lookup_fails_after_delete 13 = []
   \<and> returned_instances lookup_fails_after_delete 14 = []"
  by (simp add: test_defs lookup_fails_after_delete_def steady_def one_attempt_def
        multi_cluster_config_def Let_def)

text \<open>
  C9, amended: when the six calls up to \<open>SetupConsulClient\<close> do not fail the test, the
  poller confirms the registration, the context's options and client are obtained and the
  pod list returns without error exactly one pod, then the confirming attempt found
  exactly one instance of each service without error, and the test deletes that pod in
  the namespace of the options with grace period zero and makes only lookups afterwards.
  The test then passes if and only if the deletion returned no error and, in some attempt
  within the budget, both lookups returned without error and no returned instance of
  either service has a \<open>ServiceID\<close> containing the pod's name.
\<close>

theorem killed_pod_deregistered:
  assumes started: "\<forall>i<6. fatal w i = None"
    and confirmed: "retry_Run (retries p) (registered p w service_names)
         [Call_DefaultContext, Call_NewHelmCluster (helmValues s a) (RandomName w),
          Call_Create, Call_KubectlOptions,
          Call_DeployKustomize (NoCleanupOnFailure cfg) (DebugDirectory cfg)
            ''../fixtures/cases/static-client-inject'',
          Call_SetupConsulClient s] = (Inr (), tr1)"
    and calls: "fatal w (length tr1) = None \<and> fatal w (length tr1 + 1) = None
                \<and> fatal w (length tr1 + 3) = None"
    and listed: "returned_err w (length tr1 + 2) = None \<and> returned_pods w (length tr1 + 2) = [pod]"
  shows "\<exists>pre0 post.
      tr1 = pre0 @ [Call_Catalog_Service ''static-client'',
                    Call_Catalog_Service ''static-client-sidecar-proxy'']
      \<and> returned_err w (length pre0) = None
      \<and> length (returned_instances w (length pre0)) = 1
      \<and> returned_err w (Suc (length pre0)) = None
      \<and> length (returned_instances w (Suc (length pre0))) = 1
      \<and> snd (TestConnectInject_CleanupKilledPods_case p w cfg (s, a) [])
          = tr1 @ [Call_KubectlOptions, Call_KubernetesClient,
                   Call_Pods_List (Namespace (returned_options w (length tr1))) ''app=static-client'',
                   Call_KubernetesClient,
                   Call_Pods_Delete (Namespace (returned_options w (length tr1))) (Name pod) 0]
                @ post
      \<and> (\<forall>e\<in>set post. \<exists>name. e = Call_Catalog_Service name)
      \<and> (fst (TestConnectInject_CleanupKilledPods_case p w cfg (s, a) []) = Inr () \<longleftrightarrow>
            returned_err w (length tr1 + 4) = None
            \<and> (\<exists>i\<le>retries p.
                  let t = length (attempt_start i (deregistered p w (Name pod) service_names)
                            (tr1 @ [Call_KubectlOptions, Call_KubernetesClient,
                               Call_Pods_List (Namespace (returned_options w (length tr1)))
                                 ''app=static-client'',
                               Call_KubernetesClient,
                               Call_Pods_Delete (Namespace (returned_options w (length tr1)))
                                 (Name pod) 0]))
                  in returned_err w t = None \<and> returned_err w (Suc t) = None
                     \<and> (\<forall>inst \<in> set (returned_instances w t) \<union> set (returned_instances w (Suc t)).
                           \<not> Contains (ServiceID inst) (Name pod))))"
proof -
  let ?five = "[Call_KubectlOptions, Call_KubernetesClient,
                   Call_Pods_List (Namespace (returned_options w (length tr1))) ''app=static-client'',
                   Call_KubernetesClient,
                   Call_Pods_Delete (Namespace (returned_options w (length tr1))) (Name pod) 0]"
  let ?f = "deregistered p w (Name pod) service_names"
  let ?T = "TestConnectInject_CleanupKilledPods_case p w cfg (s, a) []"
  from started have f: "fatal w 0 = None" "fatal w (Suc 0) = None" "fatal w (Suc (Suc 0)) = None"
    "fatal w (Suc (Suc (Suc 0))) = None" "fatal w (Suc (Suc (Suc (Suc 0)))) = None"
    "fatal w (Suc (Suc (Suc (Suc (Suc 0))))) = None"
    by (simp_all add: numeral_eq_Suc)
  from calls have c: "fatal w (length tr1) = None" "fatal w (Suc (length tr1)) = None"
    "fatal w (Suc (Suc (Suc (length tr1)))) = None" by (simp_all add: numeral_eq_Suc)
  from listed have l: "returned_err w (Suc (Suc (length tr1))) = None"
    "returned_pods w (Suc (Suc (length tr1))) = [pod]" by (simp_all add: numeral_eq_Suc)
  have run: "?T = (case returned_err w (Suc (Suc (Suc (Suc (length tr1))))) of
                     Some e \<Rightarrow> (Inl (FailNow e), tr1 @ ?five)
                   | None \<Rightarrow> retry_Run (retries p) ?f (tr1 @ ?five))"
    unfolding TestConnectInject_CleanupKilledPods_case_def
    using f c l confirmed
    by (simp add: bind_def call_def ctx_KubectlOptions_def Pods_List_def Pods_Delete_def
        require_NoError_def require_Len_def Let_def split: option.splits)
  let ?six = "[Call_DefaultContext, Call_NewHelmCluster (helmValues s a) (RandomName w),
          Call_Create, Call_KubectlOptions,
          Call_DeployKustomize (NoCleanupOnFailure cfg) (DebugDirectory cfg)
            ''../fixtures/cases/static-client-inject'',
          Call_SetupConsulClient s]"
  from retry_Run_registered_confirmed [OF confirmed] obtain qs where
    qs: "tr1 = (?six @ qs) @ [Call_Catalog_Service ''static-client'',
                          Call_Catalog_Service ''static-client-sidecar-proxy'']"
     "returned_err w (length (?six @ qs)) = None"
     "length (returned_instances w (length (?six @ qs))) = 1"
     "returned_err w (Suc (length (?six @ qs))) = None"
     "length (returned_instances w (Suc (length (?six @ qs)))) = 1" by auto
  have "\<exists>post. snd ?T = tr1 @ ?five @ post
      \<and> (\<forall>e\<in>set post. \<exists>name. e = Call_Catalog_Service name)
      \<and> (fst ?T = Inr () \<longleftrightarrow>
            returned_err w (length tr1 + 4) = None
            \<and> (\<exists>i\<le>retries p.
                  let t = length (attempt_start i ?f (tr1 @ ?five))
                  in returned_err w t = None \<and> returned_err w (Suc t) = None
                     \<and> (\<forall>inst \<in> set (returned_instances w t) \<union> set (returned_instances w (Suc t)).
                           \<not> Contains (ServiceID inst) (Name pod))))"
  proof (cases "returned_err w (Suc (Suc (Suc (Suc (length tr1)))))")
    case (Some e)
    with run have "snd ?T = tr1 @ ?five @ []" "fst ?T \<noteq> Inr ()" by simp_all
    with Some show ?thesis by (auto simp: numeral_eq_Suc)
  next
    case None
    with run have T: "?T = retry_Run (retries p) ?f (tr1 @ ?five)" by simp
    obtain post where post: "snd (retry_Run (retries p) ?f (tr1 @ ?five)) = (tr1 @ ?five) @ post"
      "\<forall>e\<in>set post. \<exists>name. e = Call_Catalog_Service name"
      using retry_Run_trace [of ?f "retries p" "tr1 @ ?five", OF deregistered_trace] by blast
    have "fst ?T = Inr () \<longleftrightarrow> (\<exists>i\<le>retries p. \<not> failed (fst (?f new_R (attempt_start i ?f (tr1 @ ?five)))))"
      using retry_Run_fails_iff [of "retries p" ?f "tr1 @ ?five"] T by simp
    then have "fst ?T = Inr () \<longleftrightarrow>
            returned_err w (length tr1 + 4) = None
            \<and> (\<exists>i\<le>retries p.
                  let t = length (attempt_start i ?f (tr1 @ ?five))
                  in returned_err w t = None \<and> returned_err w (Suc t) = None
                     \<and> (\<forall>inst \<in> set (returned_instances w t) \<union> set (returned_instances w (Suc t)).
                           \<not> Contains (ServiceID inst) (Name pod)))"
      using None by (simp add: deregistered_passes Let_def numeral_eq_Suc)
    moreover from post T have "snd ?T = tr1 @ ?five @ post" by simp
    ultimately show ?thesis using post(2) by blast
  qed
  with qs show ?thesis by blast
qed

theorem killed_pod_deregistered_witness:
  "TestConnectInject_CleanupKilledPods_case two_attempts slow_deregistration
       multi_cluster_config (False, False) []
     = (Inr (),
        [Call_DefaultContext, Call_NewHelmCluster (helmValues False False) ''test-abc'', Call_Create,
         Call_KubectlOptions,
         Call_DeployKustomize False [] ''../fixtures/cases/static-client-inject'',
         Call_SetupConsulClient False, Call_Catalog_Service ''static-client'',
         Call_Catalog_Service ''static-client-sidecar-proxy'',
         Call_KubectlOptions, Call_KubernetesClient,
         Call_Pods_List ''default'' ''app=static-client'', Call_KubernetesClient,
         Call_Pods_Delete ''default'' ''static-client-7f9'' 0,
         Call_Catalog_Service ''static-client'',
         Call_Catalog_Service ''static-client-sidecar-proxy'',
         Call_Catalog_Service ''static-client'',
         Call_Catalog_Service ''static-client-sidecar-proxy''])
   \<and> returned_instances slow_deregistration 13 = [\<lparr>ServiceID = ''static-client-7f9-static-client''\<rparr>]
   \<and> Contains ''static-client-7f9-static-client'' ''static-client-7f9''
   \<and> returned_instances slow_deregistration 15 = [\<lparr>ServiceID = ''static-client-9a2-static-client''\<rparr>]
   \<and> returned_instances slow_deregistration 16 = [\<lparr>ServiceID = ''static-client-9a2-static-client''\<rparr>]
   \<and> \<not> Contains ''static-client-9a2-static-client'' ''static-client-7f9''"
proof -
  let ?tr1 = "[Call_DefaultContext, Call_NewHelmCluster (helmValues False False) ''test-abc'',
         Call_Create, Call_KubectlOptions,
         Call_DeployKustomize False [] ''../fixtures/cases/static-client-inject'',
         Call_SetupConsulClient False, Call_Catalog_Service ''static-client'',
         Call_Catalog_Service ''static-client-sidecar-proxy'']"
  have 1: "\<forall>i<6. fatal slow_deregistration i = None"
    by (simp add: slow_deregistration_def steady_def)
  have 2: "retry_Run (retries two_attempts)
             (registered two_attempts slow_deregistration service_names)
             [Call_DefaultContext,
              Call_NewHelmCluster (helmValues False False) (RandomName slow_deregistration),
              Call_Create, Call_KubectlOptions,
              Call_DeployKustomize (NoCleanupOnFailure multi_cluster_config)
                (DebugDirectory multi_cluster_config)
                ''../fixtures/cases/static-client-inject'',
              Call_SetupConsulClient False] = (Inr (), ?tr1)"
    by (simp add: test_defs slow_deregistration_def steady_def two_attempts_def
          multi_cluster_config_def)
  have 3: "fatal slow_deregistration (length ?tr1) = None
           \<and> fatal slow_deregistration (length ?tr1 + 1) = None
           \<and> fatal slow_deregistration (length ?tr1 + 3) = None"
    by (simp add: slow_deregistration_def steady_def)
  have 4: "returned_err slow_deregistration (length ?tr1 + 2) = None
           \<and> returned_pods slow_deregistration (length ?tr1 + 2) = [\<lparr>Name = ''static-client-7f9''\<rparr>]"
    by (simp add: slow_deregistration_def steady_def)
  from killed_pod_deregistered [OF 1 2 3 4] show ?thesis
    by (simp add: test_defs slow_deregistration_def steady_def two_attempts_def
          multi_cluster_config_def Let_def)
qed

end
